theory Spec2Isabelle
  imports Main
begin

section \<open>Values on the wire\<close>

text \<open>
  JSON values as \<open>JSON.stringify\<close> writes and \<open>JSON.parse\<close> reads them. An object is an
  association list in the order of its keys in the text. Numbers are the integers the code
  puts on the wire (\<open>Date.now()\<close>, amounts).
\<close>

datatype json =
    JNull
  | JBool bool
  | JNum int
  | JStr string
  | JArr "json list"
  | JObj "(string \<times> json) list"

text \<open>
  The JavaScript values the server actions handle and serialise. A \<open>Date\<close> is named by the
  text \<open>toISOString\<close> returns for it, an \<open>ObjectId\<close> by the text \<open>toHexString\<close> returns.
\<close>

datatype jsval =
    VUndefined
  | VNull
  | VBool bool
  | VNum int
  | VStr string
  | VDate string
  | VObjectId string
  | VArr "jsval list"
  | VObj "(string \<times> jsval) list"

text \<open>
  \<open>JSON.stringify\<close>, as the JSON value its text denotes; \<open>None\<close> stands for \<open>undefined\<close>. A
  property whose value is \<open>undefined\<close> is left out of an object, an \<open>undefined\<close> element of an
  array is written \<open>null\<close>; a \<open>Date\<close> and an \<open>ObjectId\<close> are written through their \<open>toJSON\<close>.
\<close>

definition member :: "string \<times> json option \<Rightarrow> (string \<times> json) list" where
  "member kv = (case snd kv of None \<Rightarrow> [] | Some j \<Rightarrow> [(fst kv, j)])"

definition element :: "json option \<Rightarrow> json" where
  "element r = (case r of None \<Rightarrow> JNull | Some j \<Rightarrow> j)"

primrec stringify :: "jsval \<Rightarrow> json option" where
  "stringify VUndefined = None"
| "stringify VNull = Some JNull"
| "stringify (VBool b) = Some (JBool b)"
| "stringify (VNum n) = Some (JNum n)"
| "stringify (VStr t) = Some (JStr t)"
| "stringify (VDate d) = Some (JStr d)"
| "stringify (VObjectId h) = Some (JStr h)"
| "stringify (VArr vs) = Some (JArr (map element (map stringify vs)))"
| "stringify (VObj kvs) = Some (JObj (concat (map member (map (map_prod id stringify) kvs))))"

text \<open>\<open>JSON.stringify\<close> of an object literal with the given properties.\<close>

definition stringify_object :: "(string \<times> jsval) list \<Rightarrow> json" where
  "stringify_object kvs = JObj (concat (map member (map (map_prod id stringify) kvs)))"

text \<open>
  Every frame the server writes is built by the same template literal,
  \<^verbatim>\<open>`data: ${JSON.stringify(obj)}\n\n`\<close>, and passed through \<open>TextEncoder.encode\<close>.
  \<open>DataFrame j\<close> stands for that text, \<open>j\<close> being what \<open>JSON.stringify(obj)\<close> writes.
\<close>

datatype frame = DataFrame json

text \<open>
  A string argument of a server action as JavaScript passes it: a string, \<open>null\<close> or
  \<open>undefined\<close> (a missing argument). \<open>===\<close> never identifies two of the three.
\<close>

datatype arg = Undefined | Null | Str string

section \<open>Connection registry (\<open>globalThis.__sseConnections\<close>)\<close>

text \<open>
  The \<open>ReadableStreamDefaultController\<close> of one SSE response. \<open>enqueue\<close> appends a chunk to
  the stream's queue and throws a \<open>TypeError\<close> once the stream is closed or errored.
\<close>

record stream_controller =
  closed :: bool
  enqueued :: "frame list"

definition enqueue :: "stream_controller \<Rightarrow> frame \<Rightarrow> stream_controller option" where
  "enqueue ctl chunk =
     (if closed ctl then None else Some (ctl\<lparr>enqueued := enqueued ctl @ [chunk]\<rparr>))"

text \<open>
  \<open>connectionData\<close> of the SSE route (the stateless \<open>encoder\<close> is left out).
  \<open>searchParams.get\<close> yields a string or \<open>null\<close>; the route rejects a missing or empty
  \<open>restaurantId\<close>, so that field is always a string.
\<close>

record connectionData =
  controller :: stream_controller
  restaurantId :: string
  customerPhone :: "string option"
  conn_type :: "string option"

text \<open>
  A JavaScript \<open>Map\<close> from connection id to \<open>connectionData\<close>: entries in insertion order,
  \<open>set\<close> on a present key replaces the value in place, \<open>delete\<close> removes the entry; \<open>get\<close> is
  \<open>map_of\<close>. The keys of a \<open>Map\<close> are distinct.
\<close>

type_synonym connections = "(string \<times> connectionData) list"

fun map_set :: "string \<Rightarrow> connectionData \<Rightarrow> connections \<Rightarrow> connections" where
  "map_set k v [] = [(k, v)]"
| "map_set k v ((k', v') # m) = (if k' = k then (k, v) # m else (k', v') # map_set k v m)"

definition map_delete :: "string \<Rightarrow> connections \<Rightarrow> connections" where
  "map_delete k m = filter (\<lambda>e. fst e \<noteq> k) m"

section \<open>Broadcast actions (\<open>src/actions/broadcastActions.js\<close>)\<close>

text \<open>The result object of a server action: \<open>{success: false, error}\<close> or \<open>{success: true, ...}\<close>.\<close>

datatype 'a action_result = Failure string | Success 'a

text \<open>\<open>conn.restaurantId === restaurantId\<close> and \<open>conn.customerPhone === customerPhone\<close>.\<close>

definition strict_eq :: "string \<Rightarrow> arg \<Rightarrow> bool" where
  "strict_eq s a = (a = Str s)"

definition strict_eq_nullable :: "string option \<Rightarrow> arg \<Rightarrow> bool" where
  "strict_eq_nullable s a = (case s of None \<Rightarrow> a = Null | Some t \<Rightarrow> a = Str t)"

text \<open>
  \<open>JSON.stringify({ event, data, timestamp: Date.now() })\<close> inside the frame template, with
  \<open>now\<close> the reading of the clock. \<open>event\<close> and \<open>data\<close> are the action's arguments as passed:
  an argument that is missing is \<open>undefined\<close>, and its key is not written.
\<close>

definition message :: "jsval \<Rightarrow> jsval \<Rightarrow> nat \<Rightarrow> frame" where
  "message event data now =
     DataFrame (stringify_object [(''event'', event), (''data'', data),
                                  (''timestamp'', VNum (int now))])"

text \<open>
  The body shared by the three actions: \<open>connections.forEach((conn, connId) => ...)\<close> with the
  action's own condition \<open>sel\<close>. The first list holds the entries still to visit, the pair is
  the live map and \<open>broadcastCount\<close>. A successful \<open>enqueue\<close> changes the controller the entry
  refers to; a throwing one is caught and the entry is deleted from the live map.
\<close>

fun forEach_push ::
  "(connectionData \<Rightarrow> bool) \<Rightarrow> frame \<Rightarrow> (string \<times> connectionData) list \<Rightarrow>
   connections \<times> nat \<Rightarrow> connections \<times> nat" where
  "forEach_push sel msg [] (conns, broadcastCount) = (conns, broadcastCount)"
| "forEach_push sel msg ((connId, conn) # rest) (conns, broadcastCount) =
     (if sel conn then
        (case enqueue (controller conn) msg of
           Some ctl \<Rightarrow>
             forEach_push sel msg rest
               (map_set connId (conn\<lparr>controller := ctl\<rparr>) conns, broadcastCount + 1)
         | None \<Rightarrow> forEach_push sel msg rest (map_delete connId conns, broadcastCount))
      else forEach_push sel msg rest (conns, broadcastCount))"

text \<open>
  The registry is \<open>None\<close> while \<open>globalThis.__sseConnections\<close> is undefined (the SSE route
  module has not been loaded). \<open>now\<close> is the value \<open>Date.now()\<close> returns in the call.
\<close>

definition broadcast ::
  "(connectionData \<Rightarrow> bool) \<Rightarrow> jsval \<Rightarrow> jsval \<Rightarrow> nat \<Rightarrow> connections option \<Rightarrow>
   nat action_result \<times> connections option" where
  "broadcast sel event data now registry =
     (case registry of
        None \<Rightarrow> (Failure ''No connections available'', None)
      | Some conns \<Rightarrow>
          (let (conns', broadcastCount) = forEach_push sel (message event data now) conns (conns, 0)
           in (Success broadcastCount, Some conns')))"

definition restaurant_sel :: "arg \<Rightarrow> connectionData \<Rightarrow> bool" where
  "restaurant_sel rId conn = strict_eq (restaurantId conn) rId"

definition customer_sel :: "arg \<Rightarrow> arg \<Rightarrow> connectionData \<Rightarrow> bool" where
  "customer_sel rId phone conn =
     (strict_eq (restaurantId conn) rId \<and> conn_type conn = Some ''customer'' \<and>
      strict_eq_nullable (connectionData.customerPhone conn) phone)"

definition admin_sel :: "arg \<Rightarrow> connectionData \<Rightarrow> bool" where
  "admin_sel rId conn = (strict_eq (restaurantId conn) rId \<and> conn_type conn = Some ''admin'')"

definition broadcastToRestaurantAction ::
  "arg \<Rightarrow> jsval \<Rightarrow> jsval \<Rightarrow> nat \<Rightarrow> connections option \<Rightarrow>
   nat action_result \<times> connections option" where
  "broadcastToRestaurantAction rId event data now registry =
     broadcast (restaurant_sel rId) event data now registry"

definition broadcastToCustomerAction ::
  "arg \<Rightarrow> arg \<Rightarrow> jsval \<Rightarrow> jsval \<Rightarrow> nat \<Rightarrow> connections option \<Rightarrow>
   nat action_result \<times> connections option" where
  "broadcastToCustomerAction rId phone event data now registry =
     broadcast (customer_sel rId phone) event data now registry"

definition broadcastToAdminAction ::
  "arg \<Rightarrow> jsval \<Rightarrow> jsval \<Rightarrow> nat \<Rightarrow> connections option \<Rightarrow>
   nat action_result \<times> connections option" where
  "broadcastToAdminAction rId event data now registry =
     broadcast (admin_sel rId) event data now registry"

text \<open>What a connection looks like after one frame has been pushed to it.\<close>

definition received :: "frame \<Rightarrow> connectionData \<Rightarrow> connectionData" where
  "received msg conn =
     conn\<lparr>controller := (controller conn)\<lparr>enqueued := enqueued (controller conn) @ [msg]\<rparr>\<rparr>"

section \<open>Orders (\<open>OrderModel\<close>, \<open>CustomerProfileModel\<close>)\<close>

text \<open>
  A cart item as \<open>placeOrderAction\<close> receives it inside \<open>orderData.items\<close>. A field is \<open>None\<close>
  when the property is missing; \<open>item_id\<close> is the property \<open>_id\<close>.
\<close>

record variant =
  label :: "string option"
  price :: "int option"

record cartItem =
  foodId :: "string option"
  item_id :: "string option"
  name :: "string option"
  foodType :: "string option"
  imageUrl :: "string option"
  variant :: "variant option"
  quantity :: "int option"

text \<open>
  An element of \<open>items\<close> of an order document: the object \<open>placeOrderAction\<close> builds, with the
  \<open>_id\<close> (\<open>item_oid\<close>) Mongoose gives every subdocument. \<open>foodId\<close> is the text Mongoose casts
  to an \<open>ObjectId\<close>.
\<close>

record orderItem =
  item_oid :: string
  foodId :: "string option"
  name :: "string option"
  foodType :: "string option"
  imageUrl :: string
  variant_label :: "string option"
  variant_price :: "int option"
  quantity :: "int option"

text \<open>The argument of \<open>placeOrderAction\<close>; \<open>status\<close> is a property the action never reads.\<close>

record orderData =
  restoId :: "string option"
  restoCode :: "string option"
  restoName :: "string option"
  customerPhone :: "string option"
  customerName :: "string option"
  tableNumber :: "string option"
  items :: "cartItem list option"
  subtotal :: "int option"
  tax :: "int option"
  discount :: "int option"
  deliveryFee :: "int option"
  order_total :: "int option"
  paymentMethod :: "string option"
  status :: "string option"

text \<open>
  A document of the \<open>Order\<close> collection: the fields of \<open>OrderSchema\<close>, the \<open>_id\<close> the database
  assigns (\<open>oid\<close>), the two dates Mongoose maintains under \<open>timestamps: true\<close> and the version
  key \<open>__v\<close> (\<open>version\<close>). A date is the text \<open>toISOString\<close> returns for it.
\<close>

record order =
  oid :: string
  orderId :: string
  restoId :: string
  restoCode :: string
  restoName :: string
  customerPhone :: string
  customerName :: string
  tableNumber :: string
  items :: "orderItem list"
  subtotal :: "int option"
  tax :: int
  discount :: int
  deliveryFee :: int
  order_total :: "int option"
  paymentMethod :: string
  paymentStatus :: string
  status :: string
  createdAt :: string
  updatedAt :: string
  version :: int

record customerProfile =
  phone :: string
  profile_restoId :: string
  tableNo :: string
  profile_orders :: "string list"
  profile_createdAt :: string
  profile_updatedAt :: string

text \<open>
  The state the server actions work on: the two collections and the connection registry.
  Calls to the database are taken to complete; the failures in the model are the ones the
  actions' own arguments and data cause.
\<close>

record server =
  Order_collection :: "order list"
  CustomerProfile_collection :: "customerProfile list"
  sseConnections :: "connections option"

section \<open>Order actions (\<open>src/actions/orderActions.js\<close>)\<close>

definition ORDER_PLACED :: string where "ORDER_PLACED = ''order:placed''"
definition ORDER_UPDATED :: string where "ORDER_UPDATED = ''order:updated''"
definition ORDER_STATUS_CHANGED :: string where "ORDER_STATUS_CHANGED = ''order:status_changed''"

text \<open>
  \<open>serializePlain\<close>, case by case as the source tests them: \<open>null\<close> and \<open>undefined\<close>, an array,
  a \<open>Date\<close>, an object with \<open>toHexString\<close> (an \<open>ObjectId\<close>), any other object, anything else.
\<close>

primrec serializePlain :: "jsval \<Rightarrow> jsval" where
  "serializePlain VUndefined = VUndefined"
| "serializePlain VNull = VNull"
| "serializePlain (VArr vs) = VArr (map serializePlain vs)"
| "serializePlain (VDate d) = VStr d"
| "serializePlain (VObjectId h) = VStr h"
| "serializePlain (VObj kvs) = VObj (map (map_prod id serializePlain) kvs)"
| "serializePlain (VBool b) = VBool b"
| "serializePlain (VNum n) = VNum n"
| "serializePlain (VStr t) = VStr t"

text \<open>The operator \<open>||\<close> on a possibly missing string or number: the empty string and 0 are falsy.\<close>

definition falsy :: "string option \<Rightarrow> bool" where
  "falsy v = (case v of None \<Rightarrow> True | Some s \<Rightarrow> s = [])"

definition or_string :: "string option \<Rightarrow> string \<Rightarrow> string" where
  "or_string v d = (if falsy v then d else the v)"

definition or_else :: "string option \<Rightarrow> string option \<Rightarrow> string option" where
  "or_else v w = (if falsy v then w else v)"

definition or_zero :: "int option \<Rightarrow> int" where
  "or_zero v = (case v of None \<Rightarrow> 0 | Some n \<Rightarrow> n)"

text \<open>\<open>Number.prototype.toString\<close> on a non-negative integer: its decimal digits.\<close>

definition digit :: "nat \<Rightarrow> char" where
  "digit n = ''0123456789'' ! (n mod 10)"

fun toString :: "nat \<Rightarrow> string" where
  "toString n = (if n < 10 then [digit n] else toString (n div 10) @ [digit (n mod 10)])"

declare toString.simps [simp del]

definition slice_last :: "nat \<Rightarrow> string \<Rightarrow> string" where
  "slice_last k s = drop (length s - k) s"

definition padStart :: "nat \<Rightarrow> char \<Rightarrow> string \<Rightarrow> string" where
  "padStart k c s = replicate (k - length s) c @ s"

text \<open>
  \<open>generateOrderId\<close>, from the two readings it takes: \<open>now\<close> is \<open>Date.now()\<close> and \<open>r\<close> is
  \<open>Math.floor(Math.random() * 100)\<close>.
\<close>

definition generateOrderId :: "nat \<Rightarrow> nat \<Rightarrow> string" where
  "generateOrderId now r = ''01'' @ slice_last 5 (toString now) @ padStart 2 (CHR ''0'') (toString r)"

definition findOne :: "order list \<Rightarrow> string \<Rightarrow> order option" where
  "findOne coll k = find (\<lambda>ord. orderId ord = k) coll"

text \<open>
  The loop that regenerates the id while an order with it exists. Each round consumes one pair
  of readings of \<open>generateOrderId\<close>; the result is \<open>None\<close> when the supplied readings are used up
  before a free id is found.
\<close>

fun fresh_orderId :: "order list \<Rightarrow> (nat \<times> nat) list \<Rightarrow> string option" where
  "fresh_orderId coll [] = None"
| "fresh_orderId coll ((now, r) # readings) =
     (let k = generateOrderId now r
      in case findOne coll k of
           Some existingOrder \<Rightarrow> fresh_orderId coll readings
         | None \<Rightarrow> Some k)"

text \<open>
  The message of the \<open>TypeError\<close> Node raises when \<open>item.variant.label\<close> is read on an item
  without \<open>variant\<close>.
\<close>

definition variant_TypeError :: string where
  "variant_TypeError =
     ''Cannot read properties of undefined (reading '' @ [CHR 0x27] @ ''label'' @ [CHR 0x27] @ '')''"

text \<open>
  The callback of \<open>items.map\<close> on the item at position \<open>n\<close>; \<open>ids\<close> gives the \<open>_id\<close> of each
  subdocument. The result is \<open>Inl\<close> the message of the error thrown.
\<close>

definition map_item :: "(nat \<Rightarrow> string) \<Rightarrow> nat \<Rightarrow> cartItem \<Rightarrow> string + orderItem" where
  "map_item ids n item =
     (case cartItem.variant item of
        None \<Rightarrow> Inl variant_TypeError
      | Some v \<Rightarrow>
          Inr \<lparr> item_oid = ids n,
                orderItem.foodId = or_else (cartItem.foodId item) (item_id item),
                orderItem.name = cartItem.name item,
                orderItem.foodType = cartItem.foodType item,
                orderItem.imageUrl = or_string (cartItem.imageUrl item) [],
                variant_label = label v,
                variant_price = price v,
                orderItem.quantity = cartItem.quantity item \<rparr>)"

fun map_items :: "(nat \<Rightarrow> string) \<Rightarrow> nat \<Rightarrow> cartItem list \<Rightarrow> string + orderItem list" where
  "map_items ids n [] = Inr []"
| "map_items ids n (item # rest) =
     (case map_item ids n item of
        Inl err \<Rightarrow> Inl err
      | Inr i \<Rightarrow> (case map_items ids (n + 1) rest of Inl err \<Rightarrow> Inl err | Inr its \<Rightarrow> Inr (i # its)))"

text \<open>
  The plain object of an order document (\<open>toObject()\<close>, or the result of \<open>lean()\<close>). A
  property the document does not have is not written. The order of the keys is the model's.
\<close>

definition opt_field :: "string \<Rightarrow> ('a \<Rightarrow> jsval) \<Rightarrow> 'a option \<Rightarrow> (string \<times> jsval) list" where
  "opt_field k f v = (case v of None \<Rightarrow> [] | Some x \<Rightarrow> [(k, f x)])"

definition toObject_item :: "orderItem \<Rightarrow> jsval" where
  "toObject_item i =
     VObj (opt_field ''foodId'' VObjectId (orderItem.foodId i) @
           opt_field ''name'' VStr (orderItem.name i) @
           opt_field ''foodType'' VStr (orderItem.foodType i) @
           [(''imageUrl'', VStr (orderItem.imageUrl i)),
            (''variant'', VObj (opt_field ''label'' VStr (variant_label i) @
                               opt_field ''price'' VNum (variant_price i)))] @
           opt_field ''quantity'' VNum (orderItem.quantity i) @
           [(''_id'', VObjectId (item_oid i))])"

definition toObject :: "order \<Rightarrow> jsval" where
  "toObject ord =
     VObj ([(''_id'', VObjectId (oid ord)),
            (''orderId'', VStr (orderId ord)),
            (''restoId'', VStr (order.restoId ord)),
            (''restoCode'', VStr (order.restoCode ord)),
            (''restoName'', VStr (order.restoName ord)),
            (''customerPhone'', VStr (order.customerPhone ord)),
            (''customerName'', VStr (order.customerName ord)),
            (''tableNumber'', VStr (order.tableNumber ord)),
            (''items'', VArr (map toObject_item (order.items ord)))] @
           opt_field ''subtotal'' VNum (order.subtotal ord) @
           [(''tax'', VNum (order.tax ord)),
            (''discount'', VNum (order.discount ord)),
            (''deliveryFee'', VNum (order.deliveryFee ord))] @
           opt_field ''total'' VNum (order.order_total ord) @
           [(''paymentMethod'', VStr (order.paymentMethod ord)),
            (''paymentStatus'', VStr (paymentStatus ord)),
            (''status'', VStr (order.status ord)),
            (''createdAt'', VDate (createdAt ord)),
            (''updatedAt'', VDate (updatedAt ord)),
            (''__v'', VNum (version ord))])"

text \<open>Reading a property of an object; \<open>undefined\<close> when there is none.\<close>

fun property :: "jsval \<Rightarrow> string \<Rightarrow> jsval" where
  "property (VObj kvs) k = (case map_of kvs k of None \<Rightarrow> VUndefined | Some v \<Rightarrow> v)"
| "property _ k = VUndefined"

text \<open>A call of one of the broadcast actions, as the order actions issue it.\<close>

datatype publish =
    ToRestaurant arg jsval jsval
  | ToCustomer arg arg jsval jsval
  | ToAdmin arg jsval jsval

text \<open>
  \<open>CustomerProfile.findOneAndUpdate({ phone, restoId }, { $push: { orders }, updatedAt })\<close>:
  the first matching profile is changed, nothing happens when there is none.
\<close>

fun push_order ::
  "string \<Rightarrow> string \<Rightarrow> string \<Rightarrow> string \<Rightarrow> customerProfile list \<Rightarrow> customerProfile list" where
  "push_order ph rid new_id date [] = []"
| "push_order ph rid new_id date (p # ps) =
     (if phone p = ph \<and> profile_restoId p = rid
      then p\<lparr>profile_orders := profile_orders p @ [new_id], profile_updatedAt := date\<rparr> # ps
      else p # push_order ph rid new_id date ps)"

text \<open>
  What \<open>placeOrderAction\<close> reads from its surroundings in one call: the successive readings of
  \<open>generateOrderId\<close>, the \<open>_id\<close> the database gives the order and each item, the date Mongoose
  writes into \<open>createdAt\<close> and \<open>updatedAt\<close>, the value of \<open>new Date()\<close> and the reading of
  \<open>Date.now()\<close> in the broadcast.
\<close>

record surroundings =
  id_readings :: "(nat \<times> nat) list"
  new_oid :: string
  new_item_oids :: "nat \<Rightarrow> string"
  saved_at :: string
  new_Date :: string
  Date_now :: nat

text \<open>
  The document \<open>Order.create\<close> is given, completed by Mongoose with the ids, the defaults of
  the schema (\<open>paymentStatus\<close>), the dates and the version key.
\<close>

definition order_document :: "surroundings \<Rightarrow> string \<Rightarrow> orderData \<Rightarrow> orderItem list \<Rightarrow> order" where
  "order_document env k d its =
     \<lparr> oid = new_oid env,
       orderId = k,
       order.restoId = the (orderData.restoId d),
       order.restoCode = or_string (orderData.restoCode d) [],
       order.restoName = or_string (orderData.restoName d) [],
       order.customerPhone = the (orderData.customerPhone d),
       order.customerName = or_string (orderData.customerName d) [],
       order.tableNumber = the (orderData.tableNumber d),
       order.items = its,
       order.subtotal = orderData.subtotal d,
       order.tax = or_zero (orderData.tax d),
       order.discount = or_zero (orderData.discount d),
       order.deliveryFee = or_zero (orderData.deliveryFee d),
       order.order_total = orderData.order_total d,
       order.paymentMethod = or_string (orderData.paymentMethod d) ''Cash'',
       paymentStatus = ''Pending'',
       order.status = ''Placed'',
       createdAt = saved_at env,
       updatedAt = saved_at env,
       version = 0 \<rparr>"

text \<open>
  \<open>placeOrderAction\<close>. \<open>create_error\<close> is the casting and validation Mongoose runs in
  \<open>Order.create\<close>: \<open>None\<close> when the document is accepted, else the message of the error
  \<open>create\<close> throws. Every exception is caught by the action and turned into a failure result
  with \<open>error.message || "Failed to place order"\<close>. The result is the returned object, the new
  server state and the broadcast calls issued, in order; it is \<open>None\<close> when the id loop has
  not ended within the readings supplied.
\<close>

definition placeOrderAction ::
  "(order \<Rightarrow> string option) \<Rightarrow> surroundings \<Rightarrow> orderData \<Rightarrow> server \<Rightarrow>
   (order action_result \<times> server \<times> publish list) option" where
  "placeOrderAction create_error env d s =
     (if falsy (orderData.restoId d) \<or> falsy (orderData.customerPhone d) \<or>
         falsy (orderData.tableNumber d) \<or>
         (case orderData.items d of None \<Rightarrow> True | Some its \<Rightarrow> length its = 0)
      then Some (Failure ''Missing required fields'', s, [])
      else
        (case fresh_orderId (Order_collection s) (id_readings env) of
           None \<Rightarrow> None
         | Some k \<Rightarrow>
             (case map_items (new_item_oids env) 0 (the (orderData.items d)) of
                Inl err \<Rightarrow> Some (Failure (or_string (Some err) ''Failed to place order''), s, [])
              | Inr its \<Rightarrow>
                  (let newOrder = order_document env k d its
                   in case create_error newOrder of
                        Some err \<Rightarrow>
                          Some (Failure (or_string (Some err) ''Failed to place order''), s, [])
                      | None \<Rightarrow>
                        (let s1 = s\<lparr>Order_collection := Order_collection s @ [newOrder]\<rparr>;
                             s2 = s1\<lparr>CustomerProfile_collection :=
                                       push_order (order.customerPhone newOrder) (order.restoId newOrder)
                                         (oid newOrder) (new_Date env) (CustomerProfile_collection s1)\<rparr>;
                             serializedOrder = serializePlain (toObject newOrder);
                             data = VObj [(''order'', serializedOrder)];
                             (r, registry) =
                               broadcastToAdminAction (Str (order.restoId newOrder))
                                 (VStr ORDER_PLACED) data (Date_now env) (sseConnections s2)
                         in Some (Success newOrder, s2\<lparr>sseConnections := registry\<rparr>,
                                  [ToAdmin (Str (order.restoId newOrder)) (VStr ORDER_PLACED) data]))))))"

definition validStatuses :: "string list" where
  "validStatuses = [''Placed'', ''Accepted'', ''Preparing'', ''Served'', ''Cancelled'']"

text \<open>
  \<open>Order.findOneAndUpdate({ orderId }, { status: newStatus }, { new: true })\<close>: the first
  document with the id gets the status, and Mongoose sets its \<open>updatedAt\<close> to the date of the
  update (\<open>date\<close>); the updated document is returned, \<open>None\<close> when no document has the id.
\<close>

fun findOneAndUpdate ::
  "string \<Rightarrow> string \<Rightarrow> string \<Rightarrow> order list \<Rightarrow> (order \<times> order list) option" where
  "findOneAndUpdate k newStatus date [] = None"
| "findOneAndUpdate k newStatus date (doc # docs) =
     (if orderId doc = k
      then Some (doc\<lparr>order.status := newStatus, updatedAt := date\<rparr>,
                 doc\<lparr>order.status := newStatus, updatedAt := date\<rparr> # docs)
      else (case findOneAndUpdate k newStatus date docs of
              None \<Rightarrow> None
            | Some (updatedOrder, docs') \<Rightarrow> Some (updatedOrder, doc # docs')))"

text \<open>
  \<open>updateOrderStatusAction\<close>; \<open>date\<close> is the date of the update, \<open>now1\<close> and \<open>now2\<close> are the
  clock readings of its two broadcasts. The result is the returned object, the new server
  state and the broadcast calls issued.
\<close>

definition updateOrderStatusAction ::
  "string \<Rightarrow> string \<Rightarrow> string \<Rightarrow> nat \<Rightarrow> nat \<Rightarrow> server \<Rightarrow>
   order action_result \<times> server \<times> publish list" where
  "updateOrderStatusAction k newStatus date now1 now2 s =
     (if newStatus \<notin> set validStatuses then (Failure ''Invalid status'', s, [])
      else
        (case findOneAndUpdate k newStatus date (Order_collection s) of
           None \<Rightarrow> (Failure ''Order not found'', s, [])
         | Some (updatedOrder, coll) \<Rightarrow>
             (let s1 = s\<lparr>Order_collection := coll\<rparr>;
                  serializedOrder = serializePlain (toObject updatedOrder);
                  data = VObj [(''orderId'', VStr (orderId updatedOrder)),
                               (''status'', VStr newStatus),
                               (''order'', serializedOrder)];
                  (r1, registry1) =
                    broadcastToCustomerAction (Str (order.restoId updatedOrder))
                      (Str (order.customerPhone updatedOrder)) (VStr ORDER_STATUS_CHANGED) data now1
                      (sseConnections s1);
                  (r2, registry2) =
                    broadcastToAdminAction (Str (order.restoId updatedOrder)) (VStr ORDER_UPDATED)
                      data now2 registry1
              in (Success updatedOrder, s1\<lparr>sseConnections := registry2\<rparr>,
                  [ToCustomer (Str (order.restoId updatedOrder))
                     (Str (order.customerPhone updatedOrder)) (VStr ORDER_STATUS_CHANGED) data,
                   ToAdmin (Str (order.restoId updatedOrder)) (VStr ORDER_UPDATED) data]))))"

section \<open>SSE route (\<open>GET\<close> of the streaming endpoint)\<close>

text \<open>The three values \<open>searchParams.get\<close> reads from the request URL.\<close>

record request =
  query_restaurantId :: "string option"
  query_customerPhone :: "string option"
  query_type :: "string option"

text \<open>The response: status 400 with a text body, or the event stream opened under an id.\<close>

datatype response = Response400 string | EventStream string

text \<open>A string or \<open>null\<close> inside a template literal.\<close>

definition template :: "string option \<Rightarrow> string" where
  "template v = (case v of None \<Rightarrow> ''null'' | Some s \<Rightarrow> s)"

definition make_connectionId :: "string option \<Rightarrow> string \<Rightarrow> string option \<Rightarrow> nat \<Rightarrow> string" where
  "make_connectionId type rId cPhone now =
     template type @ ''_'' @ rId @ ''_'' @ or_string cPhone ''admin'' @ ''_'' @ toString now"

definition connected_frame :: "string \<Rightarrow> frame" where
  "connected_frame connectionId =
     DataFrame (JObj [(''event'', JStr ''connected''), (''connectionId'', JStr connectionId)])"

definition ping_frame :: frame where
  "ping_frame = DataFrame (JObj [(''event'', JStr ''ping'')])"

text \<open>The module's top-level statement: the registry is created when it does not exist yet.\<close>

definition module_init :: "connections option \<Rightarrow> connections" where
  "module_init registry = (case registry of None \<Rightarrow> [] | Some conns \<Rightarrow> conns)"

text \<open>
  \<open>GET\<close>, with \<open>now\<close> the reading of \<open>Date.now()\<close>. The stream's \<open>start\<close> callback runs inside
  the \<open>ReadableStream\<close> constructor: it stores the connection and enqueues the first frame on
  the new controller.
\<close>

definition GET :: "request \<Rightarrow> nat \<Rightarrow> connections option \<Rightarrow> response \<times> connections option" where
  "GET req now registry =
     (let conns = module_init registry in
      if falsy (query_restaurantId req) then (Response400 ''Missing restaurantId'', Some conns)
      else
        (let connectionId =
               make_connectionId (query_type req) (the (query_restaurantId req))
                 (query_customerPhone req) now;
             connectionData =
               \<lparr> controller = \<lparr> closed = False, enqueued = [] \<rparr>,
                 restaurantId = the (query_restaurantId req),
                 connectionData.customerPhone = query_customerPhone req,
                 conn_type = query_type req \<rparr>;
             conns1 = map_set connectionId connectionData conns;
             conns2 =
               (case enqueue (controller connectionData) (connected_frame connectionId) of
                  Some ctl \<Rightarrow> map_set connectionId (connectionData\<lparr>controller := ctl\<rparr>) conns1
                | None \<Rightarrow> conns1)
         in (EventStream connectionId, Some conns2)))"

text \<open>
  The callback of the 30-second interval of the stream opened under \<open>connectionId\<close>, while the
  entry under that id is the stream's own, so that the controller the callback holds is the
  entry's. The result is the registry and whether the interval goes on; a throwing \<open>enqueue\<close>
  is caught, the interval cleared and the entry deleted. Once the registry has no entry under
  the id the stream's controller is outside the model, and the result is \<open>None\<close>.
\<close>

definition pingInterval :: "string \<Rightarrow> connections \<Rightarrow> (connections \<times> bool) option" where
  "pingInterval connectionId conns =
     (case map_of conns connectionId of
        None \<Rightarrow> None
      | Some conn \<Rightarrow>
          (case enqueue (controller conn) ping_frame of
             Some ctl \<Rightarrow> Some (map_set connectionId (conn\<lparr>controller := ctl\<rparr>) conns, True)
           | None \<Rightarrow> Some (map_delete connectionId conns, False)))"

text \<open>The listener of the request's \<open>abort\<close> event.\<close>

definition on_abort :: "string \<Rightarrow> connections \<Rightarrow> connections" where
  "on_abort connectionId conns = map_delete connectionId conns"

section \<open>Live client (\<open>WebSocketProvider\<close>)\<close>

text \<open>The argument of \<open>connect\<close>.\<close>

record params =
  param_restaurantId :: "string option"
  param_type :: "string option"
  param_customerPhone :: "string option"

text \<open>
  An \<open>EventSource\<close> the provider has created: the parameters in its URL and whether \<open>close()\<close>
  has been called on it. The browser delivers no event to a closed \<open>EventSource\<close>.
\<close>

record eventSource =
  url_params :: params
  es_closed :: bool

text \<open>
  The provider's state and refs, followed by the part of the browser it acts on: the
  \<open>EventSource\<close> objects created so far (an object is named by its position), the pending
  timeouts (id and delay in milliseconds) and the last timer id handed out; \<open>setTimeout\<close>
  returns positive ids. A subscriber callback is named by a number; a \<open>Set\<close> of callbacks is a
  list without repetition, in insertion order.
\<close>

record client =
  isConnected :: bool
  connectionId :: "json option"
  eventSourceRef :: "nat option"
  subscribersRef :: "(string \<times> nat list) list"
  reconnectTimeoutRef :: "nat option"
  connectionParamsRef :: "params option"
  eventSources :: "eventSource list"
  timeouts :: "(nat \<times> nat) list"
  timer_seq :: nat

definition initial_client :: client where
  "initial_client =
     \<lparr> isConnected = False, connectionId = None, eventSourceRef = None, subscribersRef = [],
       reconnectTimeoutRef = None, connectionParamsRef = None, eventSources = [],
       timeouts = [], timer_seq = 0 \<rparr>"

text \<open>What a subscriber callback is called with: the event's data, or the object for \<open>"*"\<close>.\<close>

datatype call_arg =
    EventData "json option"
  | AllEvents "json option" "json option" "json option"

fun set_callbacks :: "string \<Rightarrow> nat list \<Rightarrow> (string \<times> nat list) list \<Rightarrow> (string \<times> nat list) list" where
  "set_callbacks eventName cbs [] = [(eventName, cbs)]"
| "set_callbacks eventName cbs ((n, old) # m) =
     (if n = eventName then (n, cbs) # m else (n, old) # set_callbacks eventName cbs m)"

definition subscribe :: "string \<Rightarrow> nat \<Rightarrow> client \<Rightarrow> client" where
  "subscribe eventName callback c =
     (let subscribers = (case map_of (subscribersRef c) eventName of None \<Rightarrow> [] | Some cbs \<Rightarrow> cbs)
      in c\<lparr>subscribersRef :=
             set_callbacks eventName
               (if callback \<in> set subscribers then subscribers else subscribers @ [callback])
               (subscribersRef c)\<rparr>)"

text \<open>The function \<open>subscribe\<close> returns.\<close>

definition unsubscribe :: "string \<Rightarrow> nat \<Rightarrow> client \<Rightarrow> client" where
  "unsubscribe eventName callback c =
     (case map_of (subscribersRef c) eventName of
        None \<Rightarrow> c
      | Some subscribers \<Rightarrow>
          c\<lparr>subscribersRef :=
               set_callbacks eventName (filter (\<lambda>cb. cb \<noteq> callback) subscribers) (subscribersRef c)\<rparr>)"

text \<open>
  \<open>notifySubscribers\<close>: the calls it makes, in order. The event name comes from the parsed
  frame, so it can be missing or not a string; subscriptions are keyed by strings. A callback
  that throws is caught and does not stop the others.
\<close>

definition notifySubscribers :: "client \<Rightarrow> json option \<Rightarrow> call_arg \<Rightarrow> (nat \<times> call_arg) list" where
  "notifySubscribers c eventName data =
     (case eventName of
        Some (JStr n) \<Rightarrow>
          (case map_of (subscribersRef c) n of
             None \<Rightarrow> []
           | Some subscribers \<Rightarrow> map (\<lambda>callback. (callback, data)) subscribers)
      | _ \<Rightarrow> [])"

text \<open>Reading a property of a parsed value; \<open>JSON.parse\<close> keeps the last of repeated keys.\<close>

fun get_field :: "json \<Rightarrow> string \<Rightarrow> json option" where
  "get_field (JObj kvs) k = map_of (rev kvs) k"
| "get_field _ k = None"

definition close_source :: "nat \<Rightarrow> eventSource list \<Rightarrow> eventSource list" where
  "close_source h ess = (if h < length ess then ess[h := (ess ! h)\<lparr>es_closed := True\<rparr>] else ess)"

definition clearTimeout :: "nat \<Rightarrow> (nat \<times> nat) list \<Rightarrow> (nat \<times> nat) list" where
  "clearTimeout t ts = filter (\<lambda>e. fst e \<noteq> t) ts"

definition connect :: "params \<Rightarrow> client \<Rightarrow> client" where
  "connect ps c =
     (if falsy (param_restaurantId ps) \<or> falsy (param_type ps) then c
      else
        (let c1 = c\<lparr>connectionParamsRef := Some ps\<rparr>;
             c2 = (case eventSourceRef c1 of
                     None \<Rightarrow> c1
                   | Some h \<Rightarrow> c1\<lparr>eventSources := close_source h (eventSources c1)\<rparr>)
         in c2\<lparr>eventSources := eventSources c2 @ [\<lparr> url_params = ps, es_closed = False \<rparr>],
               eventSourceRef := Some (length (eventSources c2))\<rparr>))"

text \<open>\<open>eventSource.onopen\<close>.\<close>

definition onopen :: "client \<Rightarrow> client" where
  "onopen c =
     (let c1 = c\<lparr>isConnected := True\<rparr>
      in case reconnectTimeoutRef c1 of
           None \<Rightarrow> c1
         | Some t \<Rightarrow> c1\<lparr>timeouts := clearTimeout t (timeouts c1), reconnectTimeoutRef := None\<rparr>)"

text \<open>
  \<open>eventSource.onmessage\<close> on a frame: the new state and the subscriber calls made.
  Destructuring \<open>null\<close> throws, which the handler catches.
\<close>

definition onmessage :: "frame \<Rightarrow> client \<Rightarrow> client \<times> (nat \<times> call_arg) list" where
  "onmessage fr c =
     (case fr of DataFrame data \<Rightarrow>
        if data = JNull then (c, [])
        else
          (let eventName = get_field data ''event'';
               eventData = get_field data ''data'';
               timestamp = get_field data ''timestamp'';
               c1 = (if eventName = Some (JStr ''connected'')
                     then c\<lparr>connectionId := get_field data ''connectionId''\<rparr> else c)
           in (c1, notifySubscribers c1 eventName (EventData eventData) @
                   notifySubscribers c1 (Some (JStr ''*'')) (AllEvents eventName eventData timestamp))))"

text \<open>\<open>eventSource.onerror\<close> of the \<open>EventSource\<close> \<open>h\<close>, which the handler closes.\<close>

definition onerror :: "nat \<Rightarrow> client \<Rightarrow> client" where
  "onerror h c =
     (let c1 = c\<lparr>isConnected := False, eventSources := close_source h (eventSources c)\<rparr>
      in if reconnectTimeoutRef c1 = None \<and> connectionParamsRef c1 \<noteq> None
         then c1\<lparr>reconnectTimeoutRef := Some (timer_seq c1 + 1),
                 timeouts := timeouts c1 @ [(timer_seq c1 + 1, 5000)],
                 timer_seq := timer_seq c1 + 1\<rparr>
         else c1)"

text \<open>The function handed to \<open>setTimeout\<close> in \<open>onerror\<close>.\<close>

definition reconnect :: "client \<Rightarrow> client" where
  "reconnect c =
     (let c1 = c\<lparr>reconnectTimeoutRef := None\<rparr>
      in case connectionParamsRef c1 of None \<Rightarrow> c1 | Some ps \<Rightarrow> connect ps c1)"

definition disconnect :: "client \<Rightarrow> client" where
  "disconnect c =
     (let c1 = (case eventSourceRef c of
                  None \<Rightarrow> c
                | Some h \<Rightarrow> c\<lparr>eventSources := close_source h (eventSources c), eventSourceRef := None\<rparr>);
          c2 = c1\<lparr>isConnected := False, connectionId := None, connectionParamsRef := None\<rparr>
      in case reconnectTimeoutRef c2 of
           None \<Rightarrow> c2
         | Some t \<Rightarrow> c2\<lparr>timeouts := clearTimeout t (timeouts c2), reconnectTimeoutRef := None\<rparr>)"

text \<open>
  What can happen to the client: calls of the provider's functions by the application, and
  events of the browser. The browser raises \<open>Open\<close>, \<open>Message\<close> and \<open>Error\<close> only on an
  \<open>EventSource\<close> that is not closed and runs a timeout only while it is pending, removing it;
  \<open>step\<close> is \<open>None\<close> for an event that cannot happen in the state.
\<close>

datatype event =
    Connect params
  | Disconnect
  | Subscribe string nat
  | Unsubscribe string nat
  | Open nat
  | Message nat frame
  | Error nat
  | Timeout nat

definition is_open :: "nat \<Rightarrow> client \<Rightarrow> bool" where
  "is_open h c = (h < length (eventSources c) \<and> \<not> es_closed (eventSources c ! h))"

fun step :: "event \<Rightarrow> client \<Rightarrow> client option" where
  "step (Connect ps) c = Some (connect ps c)"
| "step Disconnect c = Some (disconnect c)"
| "step (Subscribe n cb) c = Some (subscribe n cb c)"
| "step (Unsubscribe n cb) c = Some (unsubscribe n cb c)"
| "step (Open h) c = (if is_open h c then Some (onopen c) else None)"
| "step (Message h fr) c = (if is_open h c then Some (fst (onmessage fr c)) else None)"
| "step (Error h) c = (if is_open h c then Some (onerror h c) else None)"
| "step (Timeout t) c =
     (if t \<in> fst ` set (timeouts c)
      then Some (reconnect (c\<lparr>timeouts := clearTimeout t (timeouts c)\<rparr>)) else None)"

fun run :: "event list \<Rightarrow> client \<Rightarrow> client option" where
  "run [] c = Some c"
| "run (e # es) c = (case step e c of None \<Rightarrow> None | Some c' \<Rightarrow> run es c')"

section \<open>Example states\<close>

text \<open>
  A registry with two admin terminals of different restaurants and two customers of
  restaurant R1, one of whose streams is already closed.
\<close>

definition example_conns :: connections where
  "example_conns =
     [(''admin_R1_admin_1'',
        \<lparr> controller = \<lparr> closed = False, enqueued = [] \<rparr>, restaurantId = ''R1'',
          connectionData.customerPhone = None, conn_type = Some ''admin'' \<rparr>),
      (''customer_R1_9999999999_2'',
        \<lparr> controller = \<lparr> closed = False, enqueued = [] \<rparr>, restaurantId = ''R1'',
          connectionData.customerPhone = Some ''9999999999'', conn_type = Some ''customer'' \<rparr>),
      (''customer_R1_8888888888_3'',
        \<lparr> controller = \<lparr> closed = True, enqueued = [] \<rparr>, restaurantId = ''R1'',
          connectionData.customerPhone = Some ''8888888888'', conn_type = Some ''customer'' \<rparr>),
      (''admin_R2_admin_4'',
        \<lparr> controller = \<lparr> closed = False, enqueued = [] \<rparr>, restaurantId = ''R2'',
          connectionData.customerPhone = None, conn_type = Some ''admin'' \<rparr>)]"

definition example_request :: request where
  "example_request =
     \<lparr> query_restaurantId = Some ''R1'', query_customerPhone = None, query_type = Some ''admin'' \<rparr>"

text \<open>A server with one order that has been served, its customer and the registry above.\<close>

definition example_order :: order where
  "example_order =
     \<lparr> oid = ''65a000000000000000000001'', orderId = ''011234507'', order.restoId = ''R1'',
       order.restoCode = ''R1'', order.restoName = ''Pie'', order.customerPhone = ''9999999999'',
       order.customerName = ''Asha'', order.tableNumber = ''4'',
       order.items =
         [\<lparr> item_oid = ''65a000000000000000000011'',
            orderItem.foodId = Some ''65b000000000000000000001'', orderItem.name = Some ''Dal'',
            orderItem.foodType = Some ''Veg'', orderItem.imageUrl = [],
            variant_label = Some ''Full'', variant_price = Some 180,
            orderItem.quantity = Some 1 \<rparr>],
       order.subtotal = Some 180, order.tax = 9, order.discount = 0, order.deliveryFee = 0,
       order.order_total = Some 189, order.paymentMethod = ''Cash'', paymentStatus = ''Pending'',
       order.status = ''Served'', createdAt = ''2023-11-14T22:13:20.000Z'',
       updatedAt = ''2023-11-14T22:40:00.000Z'', version = 0 \<rparr>"

definition example_server :: server where
  "example_server =
     \<lparr> Order_collection = [example_order],
       CustomerProfile_collection =
         [\<lparr> phone = ''9999999999'', profile_restoId = ''R1'', tableNo = ''4'',
            profile_orders = [''65a000000000000000000001''],
            profile_createdAt = ''2023-11-14T22:00:00.000Z'',
            profile_updatedAt = ''2023-11-14T22:13:20.000Z'' \<rparr>],
       sseConnections = Some example_conns \<rparr>"

definition example_orderData :: orderData where
  "example_orderData =
     \<lparr> orderData.restoId = Some ''R1'', orderData.restoCode = Some ''R1'',
       orderData.restoName = Some ''Pie'', orderData.customerPhone = Some ''9999999999'',
       orderData.customerName = None, orderData.tableNumber = Some ''4'',
       orderData.items =
         Some [\<lparr> cartItem.foodId = None, item_id = Some ''65b000000000000000000002'',
                  cartItem.name = Some ''Roti'', cartItem.foodType = Some ''Veg'',
                  cartItem.imageUrl = None,
                  cartItem.variant = Some \<lparr> label = Some ''Single'', price = Some 20 \<rparr>,
                  cartItem.quantity = Some 2 \<rparr>],
       orderData.subtotal = Some 40, orderData.tax = None, orderData.discount = None,
       orderData.deliveryFee = None, orderData.order_total = Some 40,
       orderData.paymentMethod = None, orderData.status = Some ''Served'' \<rparr>"

definition example_surroundings :: surroundings where
  "example_surroundings =
     \<lparr> id_readings = [(1700000012345, 7), (1700000012346, 42)],
       new_oid = ''65a000000000000000000002'',
       new_item_oids = (\<lambda>n. ''65a00000000000000000002'' @ [digit n]),
       saved_at = ''2023-11-14T22:13:32.346Z'',
       new_Date = ''2023-11-14T22:13:32.350Z'',
       Date_now = 1700000012351 \<rparr>"

text \<open>
  The validation of \<open>OrderSchema\<close> and \<open>OrderItemSchema\<close> for a document built by
  \<open>placeOrderAction\<close>: required paths (a required string fails when empty), the enums, the
  minimum of \<open>quantity\<close>, and the cast of \<open>foodId\<close> to an \<open>ObjectId\<close>, for which a text of 24
  hexadecimal digits is accepted. \<open>Order_create_error\<close> is \<open>Order.create\<close> with this
  validation; its text stands for the message Mongoose composes from the failing paths.
\<close>

definition casts_to_ObjectId :: "string \<Rightarrow> bool" where
  "casts_to_ObjectId t = (length t = 24 \<and> list_all (\<lambda>c. c \<in> set ''0123456789abcdefABCDEF'') t)"

definition required :: "string option \<Rightarrow> bool" where
  "required v = (case v of None \<Rightarrow> False | Some t \<Rightarrow> t \<noteq> [])"

definition OrderItemSchema_valid :: "orderItem \<Rightarrow> bool" where
  "OrderItemSchema_valid i =
     ((case orderItem.foodId i of None \<Rightarrow> True | Some f \<Rightarrow> casts_to_ObjectId f) \<and>
      required (orderItem.name i) \<and>
      (case orderItem.foodType i of
         None \<Rightarrow> True
       | Some t \<Rightarrow> t \<in> set [''Veg'', ''Non-Veg'', ''Vegan'', ''Egg'']) \<and>
      required (variant_label i) \<and>
      variant_price i \<noteq> None \<and>
      (case orderItem.quantity i of None \<Rightarrow> False | Some q \<Rightarrow> 1 \<le> q))"

definition OrderSchema_valid :: "order \<Rightarrow> bool" where
  "OrderSchema_valid ord =
     (orderId ord \<noteq> [] \<and> order.restoId ord \<noteq> [] \<and> order.restoCode ord \<noteq> [] \<and>
      order.customerPhone ord \<noteq> [] \<and> order.tableNumber ord \<noteq> [] \<and>
      list_all OrderItemSchema_valid (order.items ord) \<and>
      order.subtotal ord \<noteq> None \<and> order.order_total ord \<noteq> None \<and>
      order.paymentMethod ord \<in> set [''UPI'', ''Card'', ''Cash'', ''Wallet''] \<and>
      paymentStatus ord \<in> set [''Pending'', ''Paid'', ''Failed''] \<and>
      order.status ord \<in> set [''Placed'', ''Accepted'', ''Preparing'', ''Served'', ''Cancelled''])"

definition Order_create_error :: "order \<Rightarrow> string option" where
  "Order_create_error ord =
     (if OrderSchema_valid ord then None else Some ''Order validation failed'')"

definition example_params :: params where
  "example_params =
     \<lparr> param_restaurantId = Some ''R1'', param_type = Some ''customer'',
       param_customerPhone = Some ''9999999999'' \<rparr>"

section \<open>Frame shapes\<close>

text \<open>
  The envelope of the wire format: an object with exactly the keys \<open>event\<close> (a string),
  \<open>data\<close> and \<open>timestamp\<close> (a number), in this order.
\<close>

fun has_envelope :: "frame \<Rightarrow> bool" where
  "has_envelope (DataFrame (JObj [(k1, JStr e), (k2, d), (k3, JNum t)])) =
     (k1 = ''event'' \<and> k2 = ''data'' \<and> k3 = ''timestamp'')"
| "has_envelope _ = False"

section \<open>Invariant of the client\<close>

text \<open>
  What holds in every state the client can reach: the pending timeouts are exactly the one
  \<open>reconnectTimeoutRef\<close> names, if any; an \<open>EventSource\<close> that is not closed is the current
  one and the connection parameters are stored; a pending reconnect has stored parameters;
  stored parameters passed the check of \<open>connect\<close>.
\<close>

definition client_inv :: "client \<Rightarrow> bool" where
  "client_inv c =
     (map fst (timeouts c) = (case reconnectTimeoutRef c of None \<Rightarrow> [] | Some t \<Rightarrow> [t]) \<and>
      (\<forall>h. is_open h c \<longrightarrow> eventSourceRef c = Some h \<and> connectionParamsRef c \<noteq> None) \<and>
      (reconnectTimeoutRef c \<noteq> None \<longrightarrow> connectionParamsRef c \<noteq> None) \<and>
      (\<forall>ps. connectionParamsRef c = Some ps \<longrightarrow>
            \<not> falsy (param_restaurantId ps) \<and> \<not> falsy (param_type ps)))"

section \<open>Registry lemmas\<close>

lemma map_of_map_set: "map_of (map_set k v m) k' = (if k' = k then Some v else map_of m k')"
  by (induction m) auto

lemma map_of_map_delete: "map_of (map_delete k m) k' = (if k' = k then None else map_of m k')"
  unfolding map_delete_def by (induction m) auto

lemma forEach_push_lookup:
  "distinct (map fst es) \<Longrightarrow>
   map_of (fst (forEach_push sel msg es (conns, n))) k =
     (case map_of es k of
        None \<Rightarrow> map_of conns k
      | Some c \<Rightarrow>
          if sel c then (if closed (controller c) then None else Some (received msg c))
          else map_of conns k)"
proof (induction es arbitrary: conns n)
  case Nil
  then show ?case by simp
next
  case (Cons e es)
  obtain connId conn where e: "e = (connId, conn)" by (cases e)
  from Cons.prems e have fresh: "map_of es connId = None" and dist: "distinct (map fst es)"
    by (auto simp: map_of_eq_None_iff)
  show ?case
  proof (cases "k = connId")
    case True
    with fresh show ?thesis
      using Cons.IH [OF dist] e
      by (simp add: enqueue_def received_def map_of_map_set map_of_map_delete)
  next
    case False
    then show ?thesis
      using Cons.IH [OF dist] e
      by (auto simp: enqueue_def map_of_map_set map_of_map_delete split: option.splits)
  qed
qed

lemma forEach_push_count:
  "snd (forEach_push sel msg es (conns, n)) =
     n + length (filter (\<lambda>e. sel (snd e) \<and> \<not> closed (controller (snd e))) es)"
  by (induction es arbitrary: conns n) (auto simp: enqueue_def)

lemma broadcast_Some:
  "broadcast sel e d now (Some conns) =
     (Success (snd (forEach_push sel (message e d now) conns (conns, 0))),
      Some (fst (forEach_push sel (message e d now) conns (conns, 0))))"
  by (simp add: broadcast_def split: prod.splits)

lemma broadcast_lookup:
  assumes "distinct (map fst conns)"
  shows "map_of (fst (forEach_push sel msg conns (conns, 0))) k =
     (case map_of conns k of
        None \<Rightarrow> None
      | Some c \<Rightarrow>
          if sel c then (if closed (controller c) then None else Some (received msg c))
          else Some c)"
  using forEach_push_lookup [OF assms, of sel msg conns 0 k]
  by (simp split: option.splits)

lemma broadcast_count:
  "snd (forEach_push sel msg conns (conns, 0)) =
     length (filter (\<lambda>x. sel (snd x) \<and> \<not> closed (controller (snd x))) conns)"
  by (simp add: forEach_push_count)

section \<open>Addressing of a broadcast\<close>

text \<open>
  Claim C2. Whatever the registry holds, \<open>broadcastToRestaurantAction\<close> for restaurant \<open>R\<close>
  pushes the frame to every registered connection whose \<open>restaurantId\<close> is \<open>R\<close>, whatever its
  type, and leaves every other connection as it was; \<open>broadcastToCustomerAction\<close> for \<open>R\<close> and
  phone \<open>P\<close> pushes to the connections of restaurant \<open>R\<close>, type customer and phone \<open>P\<close> and to no
  other, so a customer with another phone and every connection of another restaurant keep
  their queues unchanged. The push shows in the registry after the call: the addressed
  connection has the frame appended to its queue, or, when its stream no longer accepts
  chunks, its entry is gone; an entry that was not addressed is identical to the one before.
\<close>

theorem publish_addressing:
  assumes "distinct (map fst conns)"
  shows "(\<exists>n conns'.
            broadcastToRestaurantAction (Str R) e d now (Some conns) = (Success n, Some conns') \<and>
            (\<forall>k. map_of conns' k =
               (case map_of conns k of
                  None \<Rightarrow> None
                | Some c \<Rightarrow>
                    if connectionData.restaurantId c = R
                    then (if closed (controller c) then None else Some (received (message e d now) c))
                    else Some c))) \<and>
         (\<exists>n conns'.
            broadcastToCustomerAction (Str R) (Str P) e d now (Some conns) = (Success n, Some conns') \<and>
            (\<forall>k. map_of conns' k =
               (case map_of conns k of
                  None \<Rightarrow> None
                | Some c \<Rightarrow>
                    if connectionData.restaurantId c = R \<and> conn_type c = Some ''customer'' \<and>
                       connectionData.customerPhone c = Some P
                    then (if closed (controller c) then None else Some (received (message e d now) c))
                    else Some c)))"
proof -
  have 1: "restaurant_sel (Str R) = (\<lambda>c. connectionData.restaurantId c = R)"
    by (auto simp: restaurant_sel_def strict_eq_def)
  have 2: "customer_sel (Str R) (Str P) =
             (\<lambda>c. connectionData.restaurantId c = R \<and> conn_type c = Some ''customer'' \<and>
                  connectionData.customerPhone c = Some P)"
    by (auto simp: customer_sel_def strict_eq_def strict_eq_nullable_def fun_eq_iff split: option.splits)
  show ?thesis
    unfolding broadcastToRestaurantAction_def broadcastToCustomerAction_def broadcast_Some 1 2
    using broadcast_lookup [OF assms] by simp
qed

theorem publish_addressing_witness:
  "distinct (map fst example_conns) \<and>
   map_of (the (snd (broadcastToRestaurantAction (Str ''R1'') (VStr ''order:placed'') VNull 7
                       (Some example_conns)))) ''admin_R2_admin_4'' =
     map_of example_conns ''admin_R2_admin_4'' \<and>
   map_of (the (snd (broadcastToCustomerAction (Str ''R1'') (Str ''9999999999'')
                       (VStr ''order:status_changed'') VNull 7 (Some example_conns))))
       ''customer_R1_9999999999_2'' =
     Some \<lparr> controller =
              \<lparr> closed = False, enqueued = [message (VStr ''order:status_changed'') VNull 7] \<rparr>,
            restaurantId = ''R1'', connectionData.customerPhone = Some ''9999999999'',
            conn_type = Some ''customer'' \<rparr>"
proof -
  have d: "distinct (map fst example_conns)"
    by (simp add: example_conns_def)
  from publish_addressing [OF d, of "''R1''" "VStr ''order:placed''" VNull 7 "''9999999999''"]
  obtain n conns' where
    "broadcastToRestaurantAction (Str ''R1'') (VStr ''order:placed'') VNull 7 (Some example_conns) =
       (Success n, Some conns')"
    and "map_of conns' ''admin_R2_admin_4'' = map_of example_conns ''admin_R2_admin_4''"
    by (auto simp: example_conns_def)
  then have r: "map_of (the (snd (broadcastToRestaurantAction (Str ''R1'') (VStr ''order:placed'') VNull 7
                       (Some example_conns)))) ''admin_R2_admin_4'' =
     map_of example_conns ''admin_R2_admin_4''"
    by simp
  from publish_addressing [OF d, of "''R1''" "VStr ''order:status_changed''" VNull 7 "''9999999999''"]
  obtain m conns'' where
    "broadcastToCustomerAction (Str ''R1'') (Str ''9999999999'') (VStr ''order:status_changed'') VNull 7
       (Some example_conns) = (Success m, Some conns'')"
    and "map_of conns'' ''customer_R1_9999999999_2'' =
      Some \<lparr> controller =
              \<lparr> closed = False, enqueued = [message (VStr ''order:status_changed'') VNull 7] \<rparr>,
            restaurantId = ''R1'', connectionData.customerPhone = Some ''9999999999'',
            conn_type = Some ''customer'' \<rparr>"
    by (auto simp: example_conns_def received_def)
  then show ?thesis using d r by simp
qed

section \<open>Failed pushes\<close>

text \<open>
  Claim C3. In each of the three broadcast actions, when the push to a matching connection
  fails because its stream throws on \<open>enqueue\<close>, the connection is absent from the registry
  when the call returns, every other matching connection whose stream accepts the chunk has
  received the frame, and the returned \<open>broadcastCount\<close> is the number of pushes that
  succeeded. \<open>sel\<close> is the condition the action tests on each connection.
\<close>

theorem push_failure_isolated:
  assumes "distinct (map fst conns)" and "map_of conns k = Some c" and "closed (controller c)"
    and "(act, sel) \<in> {(broadcastToRestaurantAction rId, restaurant_sel rId),
                        (broadcastToCustomerAction rId ph, customer_sel rId ph),
                        (broadcastToAdminAction rId, admin_sel rId)}"
    and "sel c"
  shows "\<exists>conns'.
           act e d now (Some conns) =
             (Success (length (filter (\<lambda>x. sel (snd x) \<and> \<not> closed (controller (snd x))) conns)),
              Some conns') \<and>
           map_of conns' k = None \<and>
           (\<forall>k' c'. map_of conns k' = Some c' \<and> sel c' \<and> \<not> closed (controller c') \<longrightarrow>
                    map_of conns' k' = Some (received (message e d now) c'))"
proof -
  from assms(4) have act: "act = broadcast sel"
    by (auto intro!: ext simp: broadcastToRestaurantAction_def broadcastToCustomerAction_def
        broadcastToAdminAction_def)
  let ?conns' = "fst (forEach_push sel (message e d now) conns (conns, 0))"
  have "act e d now (Some conns) =
          (Success (length (filter (\<lambda>x. sel (snd x) \<and> \<not> closed (controller (snd x))) conns)),
           Some ?conns')"
    by (simp add: act broadcast_Some broadcast_count)
  moreover have "map_of ?conns' k = None"
    using assms(2,3,5) by (simp add: broadcast_lookup [OF assms(1)])
  moreover have "\<forall>k' c'. map_of conns k' = Some c' \<and> sel c' \<and> \<not> closed (controller c') \<longrightarrow>
                    map_of ?conns' k' = Some (received (message e d now) c')"
    by (simp add: broadcast_lookup [OF assms(1)])
  ultimately show ?thesis by blast
qed

theorem push_failure_isolated_witness:
  "distinct (map fst example_conns) \<and>
   broadcastToRestaurantAction (Str ''R1'') (VStr ''order:updated'') VNull 7 (Some example_conns) =
     (Success 2,
      Some [(''admin_R1_admin_1'',
              \<lparr> controller = \<lparr> closed = False, enqueued = [message (VStr ''order:updated'') VNull 7] \<rparr>,
                restaurantId = ''R1'', connectionData.customerPhone = None,
                conn_type = Some ''admin'' \<rparr>),
            (''customer_R1_9999999999_2'',
              \<lparr> controller = \<lparr> closed = False, enqueued = [message (VStr ''order:updated'') VNull 7] \<rparr>,
                restaurantId = ''R1'', connectionData.customerPhone = Some ''9999999999'',
                conn_type = Some ''customer'' \<rparr>),
            (''admin_R2_admin_4'',
              \<lparr> controller = \<lparr> closed = False, enqueued = [] \<rparr>, restaurantId = ''R2'',
                connectionData.customerPhone = None, conn_type = Some ''admin'' \<rparr>)])"
proof -
  let ?c = "\<lparr> controller = \<lparr> closed = True, enqueued = [] \<rparr>, restaurantId = ''R1'',
          connectionData.customerPhone = Some ''8888888888'', conn_type = Some ''customer'' \<rparr>"
  let ?sel = "restaurant_sel (Str ''R1'')"
  have 1: "distinct (map fst example_conns)" by (simp add: example_conns_def)
  have 2: "map_of example_conns ''customer_R1_8888888888_3'' = Some ?c"
    by (simp add: example_conns_def)
  have 3: "closed (controller ?c)" by simp
  have 4: "(broadcastToRestaurantAction (Str ''R1''), ?sel) \<in>
             {(broadcastToRestaurantAction (Str ''R1''), ?sel),
              (broadcastToCustomerAction (Str ''R1'') Null, customer_sel (Str ''R1'') Null),
              (broadcastToAdminAction (Str ''R1''), admin_sel (Str ''R1''))}" by simp
  have 5: "?sel ?c" by (simp add: restaurant_sel_def strict_eq_def)
  have 6: "length (filter (\<lambda>x. ?sel (snd x) \<and> \<not> closed (controller (snd x))) example_conns) = 2"
    by (simp add: example_conns_def restaurant_sel_def strict_eq_def)
  from push_failure_isolated [OF 1 2 3 4 5, of "VStr ''order:updated''" VNull 7]
  have "fst (broadcastToRestaurantAction (Str ''R1'') (VStr ''order:updated'') VNull 7 (Some example_conns)) =
          Success 2"
    unfolding 6 by auto
  moreover have "snd (broadcastToRestaurantAction (Str ''R1'') (VStr ''order:updated'') VNull 7
                        (Some example_conns)) =
      Some [(''admin_R1_admin_1'',
              \<lparr> controller = \<lparr> closed = False, enqueued = [message (VStr ''order:updated'') VNull 7] \<rparr>,
                restaurantId = ''R1'', connectionData.customerPhone = None,
                conn_type = Some ''admin'' \<rparr>),
            (''customer_R1_9999999999_2'',
              \<lparr> controller = \<lparr> closed = False, enqueued = [message (VStr ''order:updated'') VNull 7] \<rparr>,
                restaurantId = ''R1'', connectionData.customerPhone = Some ''9999999999'',
                conn_type = Some ''customer'' \<rparr>),
            (''admin_R2_admin_4'',
              \<lparr> controller = \<lparr> closed = False, enqueued = [] \<rparr>, restaurantId = ''R2'',
                connectionData.customerPhone = None, conn_type = Some ''admin'' \<rparr>)]"
    by (simp add: broadcastToRestaurantAction_def broadcast_def example_conns_def
        restaurant_sel_def strict_eq_def enqueue_def map_delete_def)
  ultimately show ?thesis using 1 by (simp add: prod_eq_iff)
qed

lemma forEach_push_no_match:
  "\<forall>x\<in>set es. \<not> sel (snd x) \<Longrightarrow> forEach_push sel msg es (conns, n) = (conns, n)"
  by (induction es arbitrary: conns n) auto

section \<open>Errors of a broadcast\<close>

text \<open>
  Claim C5, as the spec states it, fails in both directions. A call whose \<open>restaurantId\<close> is
  missing is not rejected: it matches no connection and returns success with count 0. A call
  with a well-formed selector reports an error when the registry has not been created.
\<close>

theorem publish_error_counterexample:
  "broadcastToRestaurantAction Undefined (VStr ''order:placed'') VNull 7 (Some example_conns) =
     (Success 0, Some example_conns) \<and>
   fst (broadcastToRestaurantAction (Str ''R1'') (VStr ''order:placed'') VNull 7 None) =
     Failure ''No connections available''"
  by (simp add: broadcastToRestaurantAction_def broadcast_def example_conns_def
      restaurant_sel_def strict_eq_def)

text \<open>
  Claim C5, amended. Each broadcast action reports an error to its caller exactly when the
  registry does not exist, whatever the selector. With a registry, a call that matches no
  connection (in particular on an empty registry, or with a missing \<open>restaurantId\<close>)
  succeeds with count 0 and leaves the registry as it was.
\<close>

theorem publish_error_iff_no_registry:
  assumes "(act, sel) \<in> {(broadcastToRestaurantAction rId, restaurant_sel rId),
                          (broadcastToCustomerAction rId ph, customer_sel rId ph),
                          (broadcastToAdminAction rId, admin_sel rId)}"
  shows "((\<exists>err. fst (act e d now registry) = Failure err) = (registry = None)) \<and>
         ((\<forall>x\<in>set conns. \<not> sel (snd x)) \<longrightarrow> act e d now (Some conns) = (Success 0, Some conns)) \<and>
         (rId \<in> {Undefined, Null} \<longrightarrow> act e d now (Some conns) = (Success 0, Some conns))"
proof -
  from assms have act: "act = broadcast sel"
    by (auto intro!: ext simp: broadcastToRestaurantAction_def broadcastToCustomerAction_def
        broadcastToAdminAction_def)
  have a: "(\<exists>err. fst (act e d now registry) = Failure err) = (registry = None)"
    by (cases registry) (simp_all add: act broadcast_def split: prod.splits)
  have b: "act e d now (Some conns) = (Success 0, Some conns)" if "\<forall>x\<in>set conns. \<not> sel (snd x)"
    using that by (simp add: act broadcast_def forEach_push_no_match)
  have "\<forall>x\<in>set conns. \<not> sel (snd x)" if "rId \<in> {Undefined, Null}"
    using that assms by (auto simp: restaurant_sel_def customer_sel_def admin_sel_def strict_eq_def)
  with a b show ?thesis by blast
qed

theorem publish_error_iff_no_registry_witness:
  "broadcastToAdminAction Undefined (VStr ''order:placed'') VNull 7 (Some example_conns) =
     (Success 0, Some example_conns) \<and>
   broadcastToCustomerAction (Str ''R1'') (Str ''7777777777'') (VStr ''order:status_changed'') VNull 7
       (Some example_conns) = (Success 0, Some example_conns) \<and>
   (\<exists>err. fst (broadcastToAdminAction (Str ''R1'') (VStr ''order:placed'') VNull 7 None) = Failure err)"
proof -
  have 1: "(broadcastToAdminAction Undefined, admin_sel Undefined) \<in>
        {(broadcastToRestaurantAction Undefined, restaurant_sel Undefined),
         (broadcastToCustomerAction Undefined Undefined, customer_sel Undefined Undefined),
         (broadcastToAdminAction Undefined, admin_sel Undefined)}" by simp
  have 2: "(broadcastToCustomerAction (Str ''R1'') (Str ''7777777777''),
            customer_sel (Str ''R1'') (Str ''7777777777'')) \<in>
        {(broadcastToRestaurantAction (Str ''R1''), restaurant_sel (Str ''R1'')),
         (broadcastToCustomerAction (Str ''R1'') (Str ''7777777777''),
          customer_sel (Str ''R1'') (Str ''7777777777'')),
         (broadcastToAdminAction (Str ''R1''), admin_sel (Str ''R1''))}" by simp
  have 3: "(broadcastToAdminAction (Str ''R1''), admin_sel (Str ''R1'')) \<in>
        {(broadcastToRestaurantAction (Str ''R1''), restaurant_sel (Str ''R1'')),
         (broadcastToCustomerAction (Str ''R1'') Null, customer_sel (Str ''R1'') Null),
         (broadcastToAdminAction (Str ''R1''), admin_sel (Str ''R1''))}" by simp
  have 4: "\<forall>x\<in>set example_conns. \<not> customer_sel (Str ''R1'') (Str ''7777777777'') (snd x)"
    by (simp add: example_conns_def customer_sel_def strict_eq_def strict_eq_nullable_def)
  show ?thesis
    using publish_error_iff_no_registry [OF 1, of "VStr ''order:placed''" VNull 7 "Some example_conns" example_conns]
      publish_error_iff_no_registry [OF 2, of "VStr ''order:status_changed''" VNull 7 "Some example_conns" example_conns]
      publish_error_iff_no_registry [OF 3, of "VStr ''order:placed''" VNull 7 None example_conns] 4
    by simp
qed


lemma stringify_None: "(stringify d = None) = (d = VUndefined)"
  by (cases d) simp_all

lemma message_frame:
  "message e d now =
     DataFrame (JObj (member (''event'', stringify e) @ member (''data'', stringify d) @
                      [(''timestamp'', JNum (int now))]))"
  by (simp add: message_def stringify_object_def member_def)

lemma message_envelope:
  "has_envelope (message e d now) = ((\<exists>n. stringify e = Some (JStr n)) \<and> d \<noteq> VUndefined)"
proof (cases "stringify d")
  case None
  then show ?thesis
    by (cases "stringify e") (auto simp: message_frame member_def stringify_None)
next
  case (Some v)
  then have "d \<noteq> VUndefined" by (auto simp: stringify_None [symmetric])
  with Some show ?thesis
    by (cases e) (auto simp: message_frame member_def)
qed

section \<open>Shape of the frames\<close>

text \<open>
  Claim C6, as the spec states it, fails for the two frames the route writes itself. The
  first frame of a new stream is \<open>{"event":"connected","connectionId":...}\<close>: the id is a
  top-level key and there is no \<open>data\<close> and no \<open>timestamp\<close>. A ping frame is
  \<open>{"event":"ping"}\<close>.
\<close>

theorem frame_shape_counterexample:
  "GET example_request 7 None =
     (EventStream ''admin_R1_admin_7'',
      Some [(''admin_R1_admin_7'',
             \<lparr> controller =
                 \<lparr> closed = False,
                   enqueued = [DataFrame (JObj [(''event'', JStr ''connected''),
                                                (''connectionId'', JStr ''admin_R1_admin_7'')])] \<rparr>,
               restaurantId = ''R1'', connectionData.customerPhone = None,
               conn_type = Some ''admin'' \<rparr>)]) \<and>
   \<not> has_envelope (connected_frame ''admin_R1_admin_7'') \<and>
   \<not> has_envelope ping_frame"
  by (simp add: GET_def module_init_def example_request_def falsy_def make_connectionId_def
      template_def or_string_def toString.simps digit_def enqueue_def connected_frame_def
      ping_frame_def Let_def)

text \<open>
  Claim C6, amended. A frame pushed by a broadcast action is what \<open>JSON.stringify\<close> writes
  for \<open>{event, data, timestamp}\<close>, with the action's own clock reading as timestamp: after
  the call every registered connection either is as before or has exactly that frame
  appended. The frame has exactly the shape \<open>{event: string, data, timestamp: number}\<close> if
  and only if the action was called with an event that is written as a string and with a
  \<open>data\<close> argument that is not \<open>undefined\<close>; a key whose argument is \<open>undefined\<close> is not
  written. The first frame of a stream opened by \<open>GET\<close> is \<open>{event: "connected",
  connectionId}\<close> with the stream's id, and the frame the 30-second interval pushes is
  \<open>{event: "ping"}\<close>.
\<close>

theorem frame_shapes:
  assumes "distinct (map fst conns)"
    and "(act, sel) \<in> {(broadcastToRestaurantAction rId, restaurant_sel rId),
                        (broadcastToCustomerAction rId ph, customer_sel rId ph),
                        (broadcastToAdminAction rId, admin_sel rId)}"
    and "\<not> falsy (query_restaurantId req)"
  shows "(\<exists>n conns'.
            act e d now (Some conns) = (Success n, Some conns') \<and>
            (\<forall>k c'. map_of conns' k = Some c' \<longrightarrow>
               (\<exists>c. map_of conns k = Some c \<and>
                  (c' = c \<or>
                   enqueued (controller c') =
                     enqueued (controller c) @
                       [DataFrame (JObj (member (''event'', stringify e) @
                                         member (''data'', stringify d) @
                                         [(''timestamp'', JNum (int now))]))])))) \<and>
         has_envelope
           (DataFrame (JObj (member (''event'', stringify e) @ member (''data'', stringify d) @
                             [(''timestamp'', JNum (int now))]))) =
           ((\<exists>n. stringify e = Some (JStr n)) \<and> d \<noteq> VUndefined) \<and>
         (\<exists>cid conns' conn.
            GET req now registry = (EventStream cid, Some conns') \<and>
            map_of conns' cid = Some conn \<and>
            enqueued (controller conn) =
              [DataFrame (JObj [(''event'', JStr ''connected''), (''connectionId'', JStr cid)])]) \<and>
         (pingInterval cid conns = Some (conns'', True) \<longrightarrow>
            (\<exists>conn conn'.
               map_of conns cid = Some conn \<and> map_of conns'' cid = Some conn' \<and>
               enqueued (controller conn') =
                 enqueued (controller conn) @ [DataFrame (JObj [(''event'', JStr ''ping'')])]))"
proof -
  from assms(2) have act: "act = broadcast sel"
    by (auto intro!: ext simp: broadcastToRestaurantAction_def broadcastToCustomerAction_def
        broadcastToAdminAction_def)
  let ?conns' = "fst (forEach_push sel (message e d now) conns (conns, 0))"
  have "\<exists>c. map_of conns k = Some c \<and>
             (c' = c \<or> enqueued (controller c') = enqueued (controller c) @ [message e d now])"
    if "map_of ?conns' k = Some c'" for k c'
    using that unfolding broadcast_lookup [OF assms(1)]
    by (auto simp: received_def split: option.splits if_splits)
  then have a: "\<exists>n conns'.
            act e d now (Some conns) = (Success n, Some conns') \<and>
            (\<forall>k c'. map_of conns' k = Some c' \<longrightarrow>
               (\<exists>c. map_of conns k = Some c \<and>
                  (c' = c \<or>
                   enqueued (controller c') =
                     enqueued (controller c) @
                       [DataFrame (JObj (member (''event'', stringify e) @
                                         member (''data'', stringify d) @
                                         [(''timestamp'', JNum (int now))]))])))"
    unfolding act broadcast_Some message_frame by blast
  have b: "\<exists>cid conns' conn.
            GET req now registry = (EventStream cid, Some conns') \<and>
            map_of conns' cid = Some conn \<and>
            enqueued (controller conn) =
              [DataFrame (JObj [(''event'', JStr ''connected''), (''connectionId'', JStr cid)])]"
    using assms(3)
    by (simp add: GET_def Let_def enqueue_def connected_frame_def map_of_map_set)
  have c: "\<exists>conn conn'.
               map_of conns cid = Some conn \<and> map_of conns'' cid = Some conn' \<and>
               enqueued (controller conn') =
                 enqueued (controller conn) @ [DataFrame (JObj [(''event'', JStr ''ping'')])]"
    if "pingInterval cid conns = Some (conns'', True)"
    using that
    by (auto simp: pingInterval_def enqueue_def ping_frame_def map_of_map_set
        split: option.splits if_splits)
  from a b c message_envelope [of e d now] show ?thesis
    unfolding message_frame by blast
qed

theorem frame_shapes_witness:
  "distinct (map fst example_conns) \<and> \<not> falsy (query_restaurantId example_request) \<and>
   map_of (the (snd (broadcastToAdminAction (Str ''R1'') (VStr ''order:placed'')
                       (VObj [(''n'', VNum 1)]) 7 (Some example_conns)))) ''admin_R1_admin_1'' =
     Some \<lparr> controller =
              \<lparr> closed = False,
                enqueued = [DataFrame (JObj [(''event'', JStr ''order:placed''),
                                             (''data'', JObj [(''n'', JNum 1)]),
                                             (''timestamp'', JNum 7)])] \<rparr>,
            restaurantId = ''R1'', connectionData.customerPhone = None,
            conn_type = Some ''admin'' \<rparr> \<and>
   map_of (the (snd (broadcastToAdminAction (Str ''R1'') (VStr ''order:placed'') VUndefined 7
                       (Some example_conns)))) ''admin_R1_admin_1'' =
     Some \<lparr> controller =
              \<lparr> closed = False,
                enqueued = [DataFrame (JObj [(''event'', JStr ''order:placed''),
                                             (''timestamp'', JNum 7)])] \<rparr>,
            restaurantId = ''R1'', connectionData.customerPhone = None,
            conn_type = Some ''admin'' \<rparr> \<and>
   has_envelope (DataFrame (JObj [(''event'', JStr ''order:placed''),
                                  (''data'', JObj [(''n'', JNum 1)]), (''timestamp'', JNum 7)])) \<and>
   \<not> has_envelope (DataFrame (JObj [(''event'', JStr ''order:placed''), (''timestamp'', JNum 7)])) \<and>
   pingInterval ''admin_R1_admin_7'' (the (snd (GET example_request 7 None))) =
     Some ([(''admin_R1_admin_7'',
             \<lparr> controller =
                 \<lparr> closed = False,
                   enqueued = [DataFrame (JObj [(''event'', JStr ''connected''),
                                                (''connectionId'', JStr ''admin_R1_admin_7'')]),
                               DataFrame (JObj [(''event'', JStr ''ping'')])] \<rparr>,
               restaurantId = ''R1'', connectionData.customerPhone = None,
               conn_type = Some ''admin'' \<rparr>)], True)"
proof -
  have 1: "distinct (map fst example_conns)" by (simp add: example_conns_def)
  have 2: "(broadcastToAdminAction (Str ''R1''), admin_sel (Str ''R1'')) \<in>
        {(broadcastToRestaurantAction (Str ''R1''), restaurant_sel (Str ''R1'')),
         (broadcastToCustomerAction (Str ''R1'') Null, customer_sel (Str ''R1'') Null),
         (broadcastToAdminAction (Str ''R1''), admin_sel (Str ''R1''))}" by simp
  have 3: "\<not> falsy (query_restaurantId example_request)"
    by (simp add: example_request_def falsy_def)
  from frame_shapes [OF 1 2 3, where e = "VStr ''order:placed''" and d = "VObj [(''n'', VNum 1)]"
      and now = 7, THEN conjunct2, THEN conjunct1]
  have e1: "has_envelope (DataFrame (JObj [(''event'', JStr ''order:placed''),
                                  (''data'', JObj [(''n'', JNum 1)]), (''timestamp'', JNum 7)]))"
    by (simp add: member_def)
  from frame_shapes [OF 1 2 3, where e = "VStr ''order:placed''" and d = VUndefined
      and now = 7, THEN conjunct2, THEN conjunct1]
  have e2: "\<not> has_envelope (DataFrame (JObj [(''event'', JStr ''order:placed''),
                                  (''timestamp'', JNum 7)]))"
    by (simp add: member_def)
  have b1: "map_of (the (snd (broadcastToAdminAction (Str ''R1'') (VStr ''order:placed'')
                       (VObj [(''n'', VNum 1)]) 7 (Some example_conns)))) ''admin_R1_admin_1'' =
     Some \<lparr> controller =
              \<lparr> closed = False,
                enqueued = [DataFrame (JObj [(''event'', JStr ''order:placed''),
                                             (''data'', JObj [(''n'', JNum 1)]),
                                             (''timestamp'', JNum 7)])] \<rparr>,
            restaurantId = ''R1'', connectionData.customerPhone = None,
            conn_type = Some ''admin'' \<rparr>"
    and b2: "map_of (the (snd (broadcastToAdminAction (Str ''R1'') (VStr ''order:placed'') VUndefined 7
                       (Some example_conns)))) ''admin_R1_admin_1'' =
     Some \<lparr> controller =
              \<lparr> closed = False,
                enqueued = [DataFrame (JObj [(''event'', JStr ''order:placed''),
                                             (''timestamp'', JNum 7)])] \<rparr>,
            restaurantId = ''R1'', connectionData.customerPhone = None,
            conn_type = Some ''admin'' \<rparr>"
    by (simp_all add: broadcastToAdminAction_def broadcast_def example_conns_def admin_sel_def
        strict_eq_def enqueue_def map_delete_def message_def stringify_object_def member_def)
  have id: "make_connectionId (Some ''admin'') ''R1'' None 7 = ''admin_R1_admin_7''"
    by (simp add: make_connectionId_def template_def or_string_def falsy_def toString.simps
        digit_def)
  have p: "pingInterval ''admin_R1_admin_7'' (the (snd (GET example_request 7 None))) =
     Some ([(''admin_R1_admin_7'',
             \<lparr> controller =
                 \<lparr> closed = False,
                   enqueued = [DataFrame (JObj [(''event'', JStr ''connected''),
                                                (''connectionId'', JStr ''admin_R1_admin_7'')]),
                               DataFrame (JObj [(''event'', JStr ''ping'')])] \<rparr>,
               restaurantId = ''R1'', connectionData.customerPhone = None,
               conn_type = Some ''admin'' \<rparr>)], True)"
    by (simp add: pingInterval_def GET_def module_init_def example_request_def falsy_def id
        enqueue_def connected_frame_def ping_frame_def Let_def)
  from 1 3 e1 e2 b1 b2 p show ?thesis by simp
qed

lemma keys_map_set: "fst ` set (map_set k v m) = insert k (fst ` set m)"
proof (induction m)
  case Nil
  then show ?case by simp
next
  case (Cons e m)
  obtain k' v' where e: "e = (k', v')" by (cases e)
  show ?case
  proof (cases "k' = k")
    case True
    then show ?thesis by (simp add: e)
  next
    case False
    with Cons.IH show ?thesis by (simp add: e insert_commute)
  qed
qed

lemma distinct_map_set: "distinct (map fst m) \<Longrightarrow> distinct (map fst (map_set k v m))"
proof (induction m)
  case Nil
  then show ?case by simp
next
  case (Cons e m)
  obtain k' v' where e: "e = (k', v')" by (cases e)
  from Cons show ?case by (auto simp: e keys_map_set)
qed

lemma distinct_map_delete: "distinct (map fst m) \<Longrightarrow> distinct (map fst (map_delete k m))"
  by (simp add: map_delete_def distinct_map_filter)

lemma forEach_push_distinct:
  "distinct (map fst conns) \<Longrightarrow> distinct (map fst (fst (forEach_push sel msg es (conns, n))))"
  by (induction es arbitrary: conns n)
    (auto simp: distinct_map_set distinct_map_delete split: option.splits)

lemma admin_sel_Str:
  "admin_sel (Str R) = (\<lambda>c. restaurantId c = R \<and> conn_type c = Some ''admin'')"
  by (auto simp: admin_sel_def strict_eq_def)

lemma customer_sel_Str:
  "customer_sel (Str R) (Str P) =
     (\<lambda>c. restaurantId c = R \<and> conn_type c = Some ''customer'' \<and>
          connectionData.customerPhone c = Some P)"
  by (auto simp: customer_sel_def strict_eq_def strict_eq_nullable_def fun_eq_iff
      split: option.splits)

lemma findOne_orderId: "findOne coll k = Some ord \<Longrightarrow> orderId ord = k"
  by (induction coll) (auto simp: findOne_def split: if_splits)

lemma findOneAndUpdate_None:
  "findOne coll k = None \<Longrightarrow> findOneAndUpdate k st date coll = None"
  by (induction coll) (auto simp: findOne_def split: if_splits)

lemma findOneAndUpdate_Some:
  "findOne coll k = Some ord \<Longrightarrow>
   \<exists>coll'. findOneAndUpdate k st date coll =
             Some (ord\<lparr>order.status := st, updatedAt := date\<rparr>, coll') \<and>
           findOne coll' k = Some (ord\<lparr>order.status := st, updatedAt := date\<rparr>) \<and>
           (\<forall>k'. k' \<noteq> k \<longrightarrow> findOne coll' k' = findOne coll k')"
proof (induction coll)
  case Nil
  then show ?case by (simp add: findOne_def)
next
  case (Cons doc docs)
  show ?case
  proof (cases "orderId doc = k")
    case True
    with Cons.prems show ?thesis by (auto simp: findOne_def)
  next
    case False
    with Cons.prems have "findOne docs k = Some ord" by (simp add: findOne_def)
    from Cons.IH [OF this] obtain coll' where
      "findOneAndUpdate k st date docs = Some (ord\<lparr>order.status := st, updatedAt := date\<rparr>, coll')"
      "findOne coll' k = Some (ord\<lparr>order.status := st, updatedAt := date\<rparr>)"
      "\<forall>k'. k' \<noteq> k \<longrightarrow> findOne coll' k' = findOne docs k'"
      by blast
    with False show ?thesis by (auto simp: findOne_def)
  qed
qed

lemma serialized_order_properties:
  "property (serializePlain (toObject ord)) ''_id'' = VStr (oid ord) \<and>
   property (serializePlain (toObject ord)) ''orderId'' = VStr (orderId ord) \<and>
   property (serializePlain (toObject ord)) ''restoId'' = VStr (order.restoId ord) \<and>
   property (serializePlain (toObject ord)) ''customerPhone'' = VStr (order.customerPhone ord) \<and>
   property (serializePlain (toObject ord)) ''tableNumber'' = VStr (order.tableNumber ord) \<and>
   property (serializePlain (toObject ord)) ''items'' =
     VArr (map (\<lambda>i. serializePlain (toObject_item i)) (order.items ord)) \<and>
   property (serializePlain (toObject ord)) ''status'' = VStr (order.status ord) \<and>
   property (serializePlain (toObject ord)) ''createdAt'' = VStr (createdAt ord) \<and>
   property (serializePlain (toObject ord)) ''updatedAt'' = VStr (updatedAt ord)"
  by (cases "order.subtotal ord"; cases "order.order_total ord")
    (simp_all add: toObject_def opt_field_def comp_def)


lemma serialized_order_json:
  "\<exists>j. stringify (serializePlain (toObject ord)) = Some j \<and>
       get_field j ''_id'' = Some (JStr (oid ord)) \<and>
       get_field j ''orderId'' = Some (JStr (orderId ord)) \<and>
       get_field j ''status'' = Some (JStr (order.status ord)) \<and>
       get_field j ''updatedAt'' = Some (JStr (updatedAt ord))"
  by (cases "order.subtotal ord"; cases "order.order_total ord")
    (simp_all add: toObject_def opt_field_def member_def)

lemma two_broadcasts_lookup:
  assumes "distinct (map fst conns)"
  shows "\<exists>conns'.
           snd (broadcastToAdminAction (Str R) e2 d2 now2
                  (snd (broadcastToCustomerAction (Str R) (Str P) e1 d1 now1 (Some conns)))) =
             Some conns' \<and>
           (\<forall>cid. map_of conns' cid =
              (case map_of conns cid of
                 None \<Rightarrow> None
               | Some c \<Rightarrow>
                   if restaurantId c = R \<and> conn_type c = Some ''customer'' \<and>
                      connectionData.customerPhone c = Some P
                   then (if closed (controller c) then None
                         else Some (received (message e1 d1 now1) c))
                   else if restaurantId c = R \<and> conn_type c = Some ''admin''
                   then (if closed (controller c) then None
                         else Some (received (message e2 d2 now2) c))
                   else Some c))"
proof -
  let ?conns1 = "fst (forEach_push (customer_sel (Str R) (Str P)) (message e1 d1 now1) conns (conns, 0))"
  let ?conns2 = "fst (forEach_push (admin_sel (Str R)) (message e2 d2 now2) ?conns1 (?conns1, 0))"
  have d1: "distinct (map fst ?conns1)"
    by (rule forEach_push_distinct [OF assms])
  have eq: "snd (broadcastToAdminAction (Str R) e2 d2 now2
                  (snd (broadcastToCustomerAction (Str R) (Str P) e1 d1 now1 (Some conns)))) =
             Some ?conns2"
    by (simp add: broadcastToAdminAction_def broadcastToCustomerAction_def broadcast_Some)
  have "map_of ?conns2 cid =
              (case map_of conns cid of
                 None \<Rightarrow> None
               | Some c \<Rightarrow>
                   if restaurantId c = R \<and> conn_type c = Some ''customer'' \<and>
                      connectionData.customerPhone c = Some P
                   then (if closed (controller c) then None
                         else Some (received (message e1 d1 now1) c))
                   else if restaurantId c = R \<and> conn_type c = Some ''admin''
                   then (if closed (controller c) then None
                         else Some (received (message e2 d2 now2) c))
                   else Some c)" for cid
  proof -
    note l2 = broadcast_lookup [OF d1, of "admin_sel (Str R)" "message e2 d2 now2" cid]
    note l1 = broadcast_lookup [OF assms, of "customer_sel (Str R) (Str P)" "message e1 d1 now1" cid]
    show ?thesis
      unfolding l2 l1
      by (auto simp: admin_sel_Str customer_sel_Str received_def split: option.splits)
  qed
  with eq show ?thesis by blast
qed

lemma fresh_orderId_Some:
  "\<exists>x\<in>set readings. findOne coll (generateOrderId (fst x) (snd x)) = None \<Longrightarrow>
   \<exists>k. fresh_orderId coll readings = Some k \<and> findOne coll k = None"
proof (induction readings)
  case Nil
  then show ?case by simp
next
  case (Cons x readings)
  obtain now r where x: "x = (now, r)" by (cases x)
  show ?case
  proof (cases "findOne coll (generateOrderId now r)")
    case None
    then show ?thesis by (simp add: x)
  next
    case (Some existingOrder)
    with Cons.prems x
    have "\<exists>y\<in>set readings. findOne coll (generateOrderId (fst y) (snd y)) = None"
      by auto
    from Cons.IH [OF this] Some show ?thesis by (simp add: x)
  qed
qed

lemma fresh_orderId_free:
  "fresh_orderId coll readings = Some k \<Longrightarrow> findOne coll k = None"
  by (induction readings) (auto simp: Let_def split: option.splits)

lemma findOne_append_new:
  "findOne coll (orderId ord) = None \<Longrightarrow> findOne (coll @ [ord]) (orderId ord) = Some ord"
  by (induction coll) (auto simp: findOne_def split: if_splits)

lemma findOne_append_other:
  "k' \<noteq> orderId ord \<Longrightarrow> findOne (coll @ [ord]) k' = findOne coll k'"
  by (induction coll) (auto simp: findOne_def)

lemma order_document_status:
  "order_document env k (d\<lparr>orderData.status := st\<rparr>) its = order_document env k d its"
  by (simp add: order_document_def)

lemma admin_broadcast_lookup:
  assumes "distinct (map fst conns)"
  shows "\<exists>conns'.
           snd (broadcastToAdminAction (Str R) e d now (Some conns)) = Some conns' \<and>
           (\<forall>cid. map_of conns' cid =
              (case map_of conns cid of
                 None \<Rightarrow> None
               | Some c \<Rightarrow>
                   if restaurantId c = R \<and> conn_type c = Some ''admin''
                   then (if closed (controller c) then None
                         else Some (received (message e d now) c))
                   else Some c))"
  unfolding broadcastToAdminAction_def broadcast_Some admin_sel_Str
  using broadcast_lookup [OF assms] by simp

lemma placeOrderAction_run:
  assumes "\<not> falsy (orderData.restoId d)" and "\<not> falsy (orderData.customerPhone d)"
    and "\<not> falsy (orderData.tableNumber d)"
    and "orderData.items d = Some cart" and "cart \<noteq> []"
    and "fresh_orderId (Order_collection s) (id_readings env) = Some k"
    and "map_items (new_item_oids env) 0 cart = Inr its"
    and "create_error (order_document env k d its) = None"
  shows "placeOrderAction create_error env d s =
           Some (Success (order_document env k d its),
                 s\<lparr>Order_collection := Order_collection s @ [order_document env k d its],
                   CustomerProfile_collection :=
                     push_order (the (orderData.customerPhone d)) (the (orderData.restoId d))
                       (new_oid env) (new_Date env) (CustomerProfile_collection s),
                   sseConnections :=
                     snd (broadcastToAdminAction (Str (the (orderData.restoId d)))
                            (VStr ''order:placed'')
                            (VObj [(''order'', serializePlain (toObject (order_document env k d its)))])
                            (Date_now env) (sseConnections s))\<rparr>,
                 [ToAdmin (Str (the (orderData.restoId d))) (VStr ''order:placed'')
                    (VObj [(''order'', serializePlain (toObject (order_document env k d its)))])])"
proof -
  have f: "order.restoId (order_document env k d its) = the (orderData.restoId d)"
    "order.customerPhone (order_document env k d its) = the (orderData.customerPhone d)"
    "oid (order_document env k d its) = new_oid env"
    by (simp_all add: order_document_def)
  show ?thesis
    using assms
    by (simp add: placeOrderAction_def Let_def ORDER_PLACED_def f split: prod.splits)
qed

lemma placeOrderAction_Success:
  assumes "placeOrderAction create_error env d s = Some (Success ord, s', pubs)"
  shows "\<exists>k cart its.
           \<not> falsy (orderData.restoId d) \<and> \<not> falsy (orderData.customerPhone d) \<and>
           \<not> falsy (orderData.tableNumber d) \<and>
           orderData.items d = Some cart \<and> cart \<noteq> [] \<and>
           fresh_orderId (Order_collection s) (id_readings env) = Some k \<and>
           map_items (new_item_oids env) 0 cart = Inr its \<and>
           create_error (order_document env k d its) = None \<and>
           ord = order_document env k d its"
  using assms
  by (auto simp: placeOrderAction_def Let_def split: if_splits option.splits sum.splits prod.splits)

lemma placeOrderAction_Failure:
  assumes "placeOrderAction create_error env d s = Some (Failure err, s', pubs)"
  shows "s' = s \<and> pubs = []"
  using assms
  by (auto simp: placeOrderAction_def Let_def split: if_splits option.splits sum.splits prod.splits)

section \<open>Status updates\<close>

text \<open>
  Claim C1. The spec demands that \<open>updateOrderStatusAction\<close> rejects every pair of current
  and requested status outside the transition table. The action checks only that the
  requested status is one of the five names and never reads the current status: here an
  order that is \<open>Served\<close> is set back to \<open>Placed\<close>, the call succeeds, the new status is
  persisted and both broadcasts are issued.
\<close>

theorem served_order_reopened:
  "fst (updateOrderStatusAction ''011234507'' ''Placed'' ''2023-11-14T23:00:00.000Z'' 7 8
          example_server) =
     Success (example_order\<lparr>order.status := ''Placed'', updatedAt := ''2023-11-14T23:00:00.000Z''\<rparr>) \<and>
   order.status example_order = ''Served'' \<and>
   map order.status
     (Order_collection (fst (snd (updateOrderStatusAction ''011234507'' ''Placed''
        ''2023-11-14T23:00:00.000Z'' 7 8 example_server)))) = [''Placed''] \<and>
   length (snd (snd (updateOrderStatusAction ''011234507'' ''Placed''
        ''2023-11-14T23:00:00.000Z'' 7 8 example_server))) = 2"
  by (simp add: updateOrderStatusAction_def validStatuses_def example_server_def example_order_def
      Let_def split: prod.splits)

text \<open>
  Claim C4. For an existing order and a status the action accepts, the call returns success
  with the updated order; the collection holds the order with the new status and every
  other order as before, and the profiles are untouched. Exactly two broadcasts are issued,
  built from the updated order: \<open>order:status_changed\<close> to the customer selector (the order's
  restaurant and phone) and then \<open>order:updated\<close> to the admin selector (the order's
  restaurant). The registry afterwards is the one these two broadcast actions leave: a
  customer connection of the order's restaurant and phone has the first frame appended, an
  admin connection of the restaurant the second, a connection of either kind whose stream
  throws is gone, and every other connection is as before. Both frames carry the order id,
  the new status and the serialised updated order, whose \<open>status\<close> is the new status. The
  result and the persisted collection are the same for every registry, also a missing one,
  so they do not depend on any connection having received a push.
\<close>

theorem status_update_publishes:
  assumes "newStatus \<in> set validStatuses" and "findOne (Order_collection s) k = Some ord"
  shows "let updatedOrder = ord\<lparr>order.status := newStatus, updatedAt := date\<rparr>;
             serializedOrder = serializePlain (toObject updatedOrder);
             data = VObj [(''orderId'', VStr k), (''status'', VStr newStatus),
                          (''order'', serializedOrder)]
         in (\<exists>s'.
               updateOrderStatusAction k newStatus date now1 now2 s =
                 (Success updatedOrder, s',
                  [ToCustomer (Str (order.restoId ord)) (Str (order.customerPhone ord))
                     (VStr ''order:status_changed'') data,
                   ToAdmin (Str (order.restoId ord)) (VStr ''order:updated'') data]) \<and>
               findOne (Order_collection s') k = Some updatedOrder \<and>
               (\<forall>k'. k' \<noteq> k \<longrightarrow>
                     findOne (Order_collection s') k' = findOne (Order_collection s) k') \<and>
               CustomerProfile_collection s' = CustomerProfile_collection s \<and>
               sseConnections s' =
                 snd (broadcastToAdminAction (Str (order.restoId ord)) (VStr ''order:updated'')
                   data now2
                   (snd (broadcastToCustomerAction (Str (order.restoId ord))
                      (Str (order.customerPhone ord)) (VStr ''order:status_changed'') data now1
                      (sseConnections s)))) \<and>
               (\<forall>conns. distinct (map fst conns) \<and> sseConnections s = Some conns \<longrightarrow>
                  (\<exists>conns'. sseConnections s' = Some conns' \<and>
                     (\<forall>cid. map_of conns' cid =
                        (case map_of conns cid of
                           None \<Rightarrow> None
                         | Some c \<Rightarrow>
                             if restaurantId c = order.restoId ord \<and>
                                conn_type c = Some ''customer'' \<and>
                                connectionData.customerPhone c = Some (order.customerPhone ord)
                             then (if closed (controller c) then None
                                   else Some (received
                                     (message (VStr ''order:status_changed'') data now1) c))
                             else if restaurantId c = order.restoId ord \<and>
                                     conn_type c = Some ''admin''
                             then (if closed (controller c) then None
                                   else Some (received
                                     (message (VStr ''order:updated'') data now2) c))
                             else Some c)))) \<and>
               (\<forall>registry.
                  fst (updateOrderStatusAction k newStatus date now1 now2
                         (s\<lparr>sseConnections := registry\<rparr>)) = Success updatedOrder \<and>
                  Order_collection
                    (fst (snd (updateOrderStatusAction k newStatus date now1 now2
                       (s\<lparr>sseConnections := registry\<rparr>)))) = Order_collection s')) \<and>
            property serializedOrder ''_id'' = VStr (oid ord) \<and>
            property serializedOrder ''orderId'' = VStr k \<and>
            property serializedOrder ''restoId'' = VStr (order.restoId ord) \<and>
            property serializedOrder ''customerPhone'' = VStr (order.customerPhone ord) \<and>
            property serializedOrder ''items'' =
              VArr (map (\<lambda>i. serializePlain (toObject_item i)) (order.items ord)) \<and>
            property serializedOrder ''status'' = VStr newStatus \<and>
            property serializedOrder ''updatedAt'' = VStr date \<and>
            (\<exists>j. stringify serializedOrder = Some j \<and>
                 get_field j ''orderId'' = Some (JStr k) \<and>
                 get_field j ''status'' = Some (JStr newStatus) \<and>
                 message (VStr ''order:status_changed'') data now1 =
                   DataFrame (JObj [(''event'', JStr ''order:status_changed''),
                                    (''data'', JObj [(''orderId'', JStr k),
                                                     (''status'', JStr newStatus),
                                                     (''order'', j)]),
                                    (''timestamp'', JNum (int now1))]) \<and>
                 message (VStr ''order:updated'') data now2 =
                   DataFrame (JObj [(''event'', JStr ''order:updated''),
                                    (''data'', JObj [(''orderId'', JStr k),
                                                     (''status'', JStr newStatus),
                                                     (''order'', j)]),
                                    (''timestamp'', JNum (int now2))]))"
proof -
  let ?ord = "ord\<lparr>order.status := newStatus, updatedAt := date\<rparr>"
  let ?ser = "serializePlain (toObject ?ord)"
  let ?data = "VObj [(''orderId'', VStr k), (''status'', VStr newStatus), (''order'', ?ser)]"
  have k: "orderId ord = k" by (rule findOne_orderId [OF assms(2)])
  from findOneAndUpdate_Some [OF assms(2), of newStatus date] obtain coll' where
    upd: "findOneAndUpdate k newStatus date (Order_collection s) = Some (?ord, coll')"
    and found: "findOne coll' k = Some ?ord"
    and others: "\<forall>k'. k' \<noteq> k \<longrightarrow> findOne coll' k' = findOne (Order_collection s) k'"
    by blast
  let ?reg = "\<lambda>registry.
     snd (broadcastToAdminAction (Str (order.restoId ord)) (VStr ''order:updated'') ?data now2
       (snd (broadcastToCustomerAction (Str (order.restoId ord)) (Str (order.customerPhone ord))
          (VStr ''order:status_changed'') ?data now1 registry)))"
  have run: "updateOrderStatusAction k newStatus date now1 now2 (s\<lparr>sseConnections := registry\<rparr>) =
          (Success ?ord, s\<lparr>Order_collection := coll', sseConnections := ?reg registry\<rparr>,
           [ToCustomer (Str (order.restoId ord)) (Str (order.customerPhone ord))
              (VStr ''order:status_changed'') ?data,
            ToAdmin (Str (order.restoId ord)) (VStr ''order:updated'') ?data])" for registry
    using assms(1) upd k
    by (simp add: updateOrderStatusAction_def Let_def ORDER_STATUS_CHANGED_def ORDER_UPDATED_def
        split: prod.splits)
  from run [of "sseConnections s"]
  have run0: "updateOrderStatusAction k newStatus date now1 now2 s =
          (Success ?ord, s\<lparr>Order_collection := coll', sseConnections := ?reg (sseConnections s)\<rparr>,
           [ToCustomer (Str (order.restoId ord)) (Str (order.customerPhone ord))
              (VStr ''order:status_changed'') ?data,
            ToAdmin (Str (order.restoId ord)) (VStr ''order:updated'') ?data])"
    by simp
  have look: "\<exists>conns'. ?reg (sseConnections s) = Some conns' \<and>
                     (\<forall>cid. map_of conns' cid =
                        (case map_of conns cid of
                           None \<Rightarrow> None
                         | Some c \<Rightarrow>
                             if restaurantId c = order.restoId ord \<and>
                                conn_type c = Some ''customer'' \<and>
                                connectionData.customerPhone c = Some (order.customerPhone ord)
                             then (if closed (controller c) then None
                                   else Some (received
                                     (message (VStr ''order:status_changed'') ?data now1) c))
                             else if restaurantId c = order.restoId ord \<and>
                                     conn_type c = Some ''admin''
                             then (if closed (controller c) then None
                                   else Some (received
                                     (message (VStr ''order:updated'') ?data now2) c))
                             else Some c))"
    if "distinct (map fst conns) \<and> sseConnections s = Some conns" for conns
    using two_broadcasts_lookup [of conns "order.restoId ord" "VStr ''order:updated''" ?data now2
        "order.customerPhone ord" "VStr ''order:status_changed''" ?data now1] that
    by simp
  have first: "\<exists>s'.
               updateOrderStatusAction k newStatus date now1 now2 s =
                 (Success ?ord, s',
                  [ToCustomer (Str (order.restoId ord)) (Str (order.customerPhone ord))
                     (VStr ''order:status_changed'') ?data,
                   ToAdmin (Str (order.restoId ord)) (VStr ''order:updated'') ?data]) \<and>
               findOne (Order_collection s') k = Some ?ord \<and>
               (\<forall>k'. k' \<noteq> k \<longrightarrow>
                     findOne (Order_collection s') k' = findOne (Order_collection s) k') \<and>
               CustomerProfile_collection s' = CustomerProfile_collection s \<and>
               sseConnections s' = ?reg (sseConnections s) \<and>
               (\<forall>conns. distinct (map fst conns) \<and> sseConnections s = Some conns \<longrightarrow>
                  (\<exists>conns'. sseConnections s' = Some conns' \<and>
                     (\<forall>cid. map_of conns' cid =
                        (case map_of conns cid of
                           None \<Rightarrow> None
                         | Some c \<Rightarrow>
                             if restaurantId c = order.restoId ord \<and>
                                conn_type c = Some ''customer'' \<and>
                                connectionData.customerPhone c = Some (order.customerPhone ord)
                             then (if closed (controller c) then None
                                   else Some (received
                                     (message (VStr ''order:status_changed'') ?data now1) c))
                             else if restaurantId c = order.restoId ord \<and>
                                     conn_type c = Some ''admin''
                             then (if closed (controller c) then None
                                   else Some (received
                                     (message (VStr ''order:updated'') ?data now2) c))
                             else Some c)))) \<and>
               (\<forall>registry.
                  fst (updateOrderStatusAction k newStatus date now1 now2
                         (s\<lparr>sseConnections := registry\<rparr>)) = Success ?ord \<and>
                  Order_collection
                    (fst (snd (updateOrderStatusAction k newStatus date now1 now2
                       (s\<lparr>sseConnections := registry\<rparr>)))) = Order_collection s')"
    unfolding run run0 using found others look by simp
  from serialized_order_properties [of ?ord] k
  have props: "property ?ser ''_id'' = VStr (oid ord) \<and>
            property ?ser ''orderId'' = VStr k \<and>
            property ?ser ''restoId'' = VStr (order.restoId ord) \<and>
            property ?ser ''customerPhone'' = VStr (order.customerPhone ord) \<and>
            property ?ser ''items'' =
              VArr (map (\<lambda>i. serializePlain (toObject_item i)) (order.items ord)) \<and>
            property ?ser ''status'' = VStr newStatus \<and>
            property ?ser ''updatedAt'' = VStr date"
    by simp
  from serialized_order_json [of ?ord] k obtain j where
    j: "stringify ?ser = Some j" "get_field j ''orderId'' = Some (JStr k)"
      "get_field j ''status'' = Some (JStr newStatus)"
    by auto
  have wire: "\<exists>j. stringify ?ser = Some j \<and>
                 get_field j ''orderId'' = Some (JStr k) \<and>
                 get_field j ''status'' = Some (JStr newStatus) \<and>
                 message (VStr ''order:status_changed'') ?data now1 =
                   DataFrame (JObj [(''event'', JStr ''order:status_changed''),
                                    (''data'', JObj [(''orderId'', JStr k),
                                                     (''status'', JStr newStatus),
                                                     (''order'', j)]),
                                    (''timestamp'', JNum (int now1))]) \<and>
                 message (VStr ''order:updated'') ?data now2 =
                   DataFrame (JObj [(''event'', JStr ''order:updated''),
                                    (''data'', JObj [(''orderId'', JStr k),
                                                     (''status'', JStr newStatus),
                                                     (''order'', j)]),
                                    (''timestamp'', JNum (int now2))])"
    using j by (simp add: message_def stringify_object_def member_def)
  from first props wire show ?thesis
    unfolding Let_def by blast
qed

theorem status_update_publishes_witness:
  "let S = example_server\<lparr>Order_collection := [example_order\<lparr>order.status := ''Placed''\<rparr>]\<rparr>;
       J = JObj [(''_id'', JStr ''65a000000000000000000001''), (''orderId'', JStr ''011234507''),
               (''restoId'', JStr ''R1''), (''restoCode'', JStr ''R1''),
               (''restoName'', JStr ''Pie''), (''customerPhone'', JStr ''9999999999''),
               (''customerName'', JStr ''Asha''), (''tableNumber'', JStr ''4''),
               (''items'',
                JArr [JObj [(''foodId'', JStr ''65b000000000000000000001''), (''name'', JStr ''Dal''),
                            (''foodType'', JStr ''Veg''), (''imageUrl'', JStr []),
                            (''variant'', JObj [(''label'', JStr ''Full''),
                                                (''price'', JNum 180)]),
                            (''quantity'', JNum 1),
                            (''_id'', JStr ''65a000000000000000000011'')]]),
               (''subtotal'', JNum 180), (''tax'', JNum 9), (''discount'', JNum 0),
               (''deliveryFee'', JNum 0), (''total'', JNum 189),
               (''paymentMethod'', JStr ''Cash''), (''paymentStatus'', JStr ''Pending''),
               (''status'', JStr ''Accepted''), (''createdAt'', JStr ''2023-11-14T22:13:20.000Z''),
               (''updatedAt'', JStr ''2023-11-14T22:45:00.000Z''), (''__v'', JNum 0)];
       D = JObj [(''orderId'', JStr ''011234507''), (''status'', JStr ''Accepted''), (''order'', J)]
   in ''Accepted'' \<in> set validStatuses \<and>
      findOne (Order_collection S) ''011234507'' = Some (example_order\<lparr>order.status := ''Placed''\<rparr>) \<and>
      fst (updateOrderStatusAction ''011234507'' ''Accepted'' ''2023-11-14T22:45:00.000Z'' 7 8 S) =
        Success (example_order\<lparr>order.status := ''Accepted'',
                   updatedAt := ''2023-11-14T22:45:00.000Z''\<rparr>) \<and>
      map order.status
        (Order_collection (fst (snd (updateOrderStatusAction ''011234507'' ''Accepted''
           ''2023-11-14T22:45:00.000Z'' 7 8 S)))) = [''Accepted''] \<and>
      map (\<lambda>x. (fst x, enqueued (controller (snd x))))
        (the (sseConnections (fst (snd (updateOrderStatusAction ''011234507'' ''Accepted''
           ''2023-11-14T22:45:00.000Z'' 7 8 S))))) =
        [(''admin_R1_admin_1'',
          [DataFrame (JObj [(''event'', JStr ''order:updated''), (''data'', D),
                            (''timestamp'', JNum 8)])]),
         (''customer_R1_9999999999_2'',
          [DataFrame (JObj [(''event'', JStr ''order:status_changed''), (''data'', D),
                            (''timestamp'', JNum 7)])]),
         (''customer_R1_8888888888_3'', []),
         (''admin_R2_admin_4'', [])]"
proof -
  let ?J = "JObj [(''_id'', JStr ''65a000000000000000000001''), (''orderId'', JStr ''011234507''),
               (''restoId'', JStr ''R1''), (''restoCode'', JStr ''R1''),
               (''restoName'', JStr ''Pie''), (''customerPhone'', JStr ''9999999999''),
               (''customerName'', JStr ''Asha''), (''tableNumber'', JStr ''4''),
               (''items'',
                JArr [JObj [(''foodId'', JStr ''65b000000000000000000001''), (''name'', JStr ''Dal''),
                            (''foodType'', JStr ''Veg''), (''imageUrl'', JStr []),
                            (''variant'', JObj [(''label'', JStr ''Full''),
                                                (''price'', JNum 180)]),
                            (''quantity'', JNum 1),
                            (''_id'', JStr ''65a000000000000000000011'')]]),
               (''subtotal'', JNum 180), (''tax'', JNum 9), (''discount'', JNum 0),
               (''deliveryFee'', JNum 0), (''total'', JNum 189),
               (''paymentMethod'', JStr ''Cash''), (''paymentStatus'', JStr ''Pending''),
               (''status'', JStr ''Accepted''), (''createdAt'', JStr ''2023-11-14T22:13:20.000Z''),
               (''updatedAt'', JStr ''2023-11-14T22:45:00.000Z''), (''__v'', JNum 0)]"
  let ?S = "example_server\<lparr>Order_collection := [example_order\<lparr>order.status := ''Placed''\<rparr>]\<rparr>"
  have 1: "''Accepted'' \<in> set validStatuses" by (simp add: validStatuses_def)
  have 2: "findOne (Order_collection ?S) ''011234507'' = Some (example_order\<lparr>order.status := ''Placed''\<rparr>)"
    by (simp add: findOne_def example_order_def)
  have 3: "distinct (map fst example_conns) \<and> sseConnections ?S = Some example_conns"
    by (simp add: example_conns_def example_server_def)
  note inst = status_update_publishes [OF 1 2, of "''2023-11-14T22:45:00.000Z''" 7 8]
  from inst have res: "fst (updateOrderStatusAction ''011234507'' ''Accepted''
           ''2023-11-14T22:45:00.000Z'' 7 8 ?S) =
      Success (example_order\<lparr>order.status := ''Accepted'',
                 updatedAt := ''2023-11-14T22:45:00.000Z''\<rparr>)"
    by (auto simp: Let_def)
  have run: "snd (updateOrderStatusAction ''011234507'' ''Accepted'' ''2023-11-14T22:45:00.000Z'' 7 8 ?S) =
      (?S\<lparr>Order_collection :=
             [example_order\<lparr>order.status := ''Accepted'', updatedAt := ''2023-11-14T22:45:00.000Z''\<rparr>],
           sseConnections :=
             snd (broadcastToAdminAction (Str ''R1'') (VStr ''order:updated'')
               (VObj [(''orderId'', VStr ''011234507''), (''status'', VStr ''Accepted''),
                      (''order'', serializePlain (toObject
                         (example_order\<lparr>order.status := ''Accepted'',
                            updatedAt := ''2023-11-14T22:45:00.000Z''\<rparr>)))]) 8
               (snd (broadcastToCustomerAction (Str ''R1'') (Str ''9999999999'')
                  (VStr ''order:status_changed'')
                  (VObj [(''orderId'', VStr ''011234507''), (''status'', VStr ''Accepted''),
                      (''order'', serializePlain (toObject
                         (example_order\<lparr>order.status := ''Accepted'',
                            updatedAt := ''2023-11-14T22:45:00.000Z''\<rparr>)))]) 7
                  (Some example_conns))))\<rparr>,
       [ToCustomer (Str ''R1'') (Str ''9999999999'') (VStr ''order:status_changed'')
          (VObj [(''orderId'', VStr ''011234507''), (''status'', VStr ''Accepted''),
                      (''order'', serializePlain (toObject
                         (example_order\<lparr>order.status := ''Accepted'',
                            updatedAt := ''2023-11-14T22:45:00.000Z''\<rparr>)))]),
        ToAdmin (Str ''R1'') (VStr ''order:updated'')
          (VObj [(''orderId'', VStr ''011234507''), (''status'', VStr ''Accepted''),
                      (''order'', serializePlain (toObject
                         (example_order\<lparr>order.status := ''Accepted'',
                            updatedAt := ''2023-11-14T22:45:00.000Z''\<rparr>)))])])"
    by (simp add: updateOrderStatusAction_def validStatuses_def Let_def
        ORDER_STATUS_CHANGED_def ORDER_UPDATED_def example_order_def example_server_def
        split: prod.splits)
  have reg: "map (\<lambda>x. (fst x, enqueued (controller (snd x))))
        (the (snd (broadcastToAdminAction (Str ''R1'') (VStr ''order:updated'')
               (VObj [(''orderId'', VStr ''011234507''), (''status'', VStr ''Accepted''),
                      (''order'', serializePlain (toObject
                         (example_order\<lparr>order.status := ''Accepted'',
                            updatedAt := ''2023-11-14T22:45:00.000Z''\<rparr>)))]) 8
               (snd (broadcastToCustomerAction (Str ''R1'') (Str ''9999999999'')
                  (VStr ''order:status_changed'')
                  (VObj [(''orderId'', VStr ''011234507''), (''status'', VStr ''Accepted''),
                      (''order'', serializePlain (toObject
                         (example_order\<lparr>order.status := ''Accepted'',
                            updatedAt := ''2023-11-14T22:45:00.000Z''\<rparr>)))]) 7
                  (Some example_conns)))))) =
        [(''admin_R1_admin_1'',
          [DataFrame (JObj [(''event'', JStr ''order:updated''),
             (''data'', JObj [(''orderId'', JStr ''011234507''), (''status'', JStr ''Accepted''),
                              (''order'', ?J)]),
             (''timestamp'', JNum 8)])]),
         (''customer_R1_9999999999_2'',
          [DataFrame (JObj [(''event'', JStr ''order:status_changed''),
             (''data'', JObj [(''orderId'', JStr ''011234507''), (''status'', JStr ''Accepted''),
                              (''order'', ?J)]),
             (''timestamp'', JNum 7)])]),
         (''customer_R1_8888888888_3'', []),
         (''admin_R2_admin_4'', [])]"
    by (simp add: example_order_def example_conns_def
        broadcastToAdminAction_def broadcastToCustomerAction_def broadcast_def
        admin_sel_def customer_sel_def strict_eq_def strict_eq_nullable_def enqueue_def
        map_delete_def message_def stringify_object_def member_def element_def toObject_def
        toObject_item_def opt_field_def)
  show ?thesis
    unfolding Let_def using 1 2 res by (simp add: run reg)
qed

section \<open>Order creation\<close>

text \<open>
  Claim C10. Whenever \<open>placeOrderAction\<close> returns success, the created order is the last
  document of the collection, its status is \<open>Placed\<close>, the customer's profile has its id
  appended, and exactly one broadcast is issued: \<open>order:placed\<close> to the admin selector of
  \<open>restoId\<close>, carrying the serialised order. The registry afterwards is the one that
  broadcast leaves: an admin connection of the restaurant has the frame appended (or is gone
  when its stream throws) and every other connection, so every customer connection, is as
  before. It returns success for an \<open>orderData\<close> that passes the action's check (\<open>restoId\<close>,
  \<open>customerPhone\<close>, \<open>tableNumber\<close> present, \<open>items\<close> not empty) when the id loop finds a free
  id among the readings, every item has a variant and \<open>Order.create\<close> accepts the document.
  A failure result leaves the state unchanged and issues no broadcast, and a \<open>status\<close>
  supplied in the input changes nothing.
\<close>

theorem place_order_placed:
  "(\<not> falsy (orderData.restoId d) \<and> \<not> falsy (orderData.customerPhone d) \<and>
    \<not> falsy (orderData.tableNumber d) \<and> orderData.items d = Some cart \<and> cart \<noteq> [] \<and>
    (\<exists>x\<in>set (id_readings env).
        findOne (Order_collection s) (generateOrderId (fst x) (snd x)) = None) \<and>
    map_items (new_item_oids env) 0 cart = Inr its \<and>
    create_error
      (order_document env (the (fresh_orderId (Order_collection s) (id_readings env))) d its) =
      None \<longrightarrow>
    (\<exists>k s1. placeOrderAction create_error env d s =
              Some (Success (order_document env k d its), s1,
                    [ToAdmin (Str (the (orderData.restoId d))) (VStr ''order:placed'')
                       (VObj [(''order'',
                               serializePlain (toObject (order_document env k d its)))])]))) \<and>
   (placeOrderAction create_error env d s = Some (Success ord, s', pubs) \<longrightarrow>
      order.status ord = ''Placed'' \<and>
      property (serializePlain (toObject ord)) ''status'' = VStr ''Placed'' \<and>
      property (serializePlain (toObject ord)) ''orderId'' = VStr (orderId ord) \<and>
      property (serializePlain (toObject ord)) ''restoId'' = VStr (the (orderData.restoId d)) \<and>
      findOne (Order_collection s') (orderId ord) = Some ord \<and>
      Order_collection s' = Order_collection s @ [ord] \<and>
      CustomerProfile_collection s' =
        push_order (the (orderData.customerPhone d)) (the (orderData.restoId d)) (oid ord)
          (new_Date env) (CustomerProfile_collection s) \<and>
      pubs = [ToAdmin (Str (the (orderData.restoId d))) (VStr ''order:placed'')
                (VObj [(''order'', serializePlain (toObject ord))])] \<and>
      sseConnections s' =
        snd (broadcastToAdminAction (Str (the (orderData.restoId d))) (VStr ''order:placed'')
               (VObj [(''order'', serializePlain (toObject ord))]) (Date_now env)
               (sseConnections s)) \<and>
      (\<forall>conns. distinct (map fst conns) \<and> sseConnections s = Some conns \<longrightarrow>
         (\<exists>conns'. sseConnections s' = Some conns' \<and>
            (\<forall>cid. map_of conns' cid =
               (case map_of conns cid of
                  None \<Rightarrow> None
                | Some c \<Rightarrow>
                    if restaurantId c = the (orderData.restoId d) \<and> conn_type c = Some ''admin''
                    then (if closed (controller c) then None
                          else Some (received
                            (message (VStr ''order:placed'')
                               (VObj [(''order'', serializePlain (toObject ord))]) (Date_now env)) c))
                    else Some c)))) \<and>
      (\<exists>j. stringify (serializePlain (toObject ord)) = Some j \<and>
           get_field j ''orderId'' = Some (JStr (orderId ord)) \<and>
           get_field j ''status'' = Some (JStr ''Placed'') \<and>
           message (VStr ''order:placed'') (VObj [(''order'', serializePlain (toObject ord))])
               (Date_now env) =
             DataFrame (JObj [(''event'', JStr ''order:placed''),
                              (''data'', JObj [(''order'', j)]),
                              (''timestamp'', JNum (int (Date_now env)))]))) \<and>
   (placeOrderAction create_error env d s = Some (Failure err, s', pubs) \<longrightarrow>
      s' = s \<and> pubs = []) \<and>
   placeOrderAction create_error env (d\<lparr>orderData.status := st\<rparr>) s =
     placeOrderAction create_error env d s"
proof -
  have live: "\<exists>k s1. placeOrderAction create_error env d s =
              Some (Success (order_document env k d its), s1,
                    [ToAdmin (Str (the (orderData.restoId d))) (VStr ''order:placed'')
                       (VObj [(''order'',
                               serializePlain (toObject (order_document env k d its)))])])"
    if valid: "\<not> falsy (orderData.restoId d)" "\<not> falsy (orderData.customerPhone d)"
        "\<not> falsy (orderData.tableNumber d)" "orderData.items d = Some cart" "cart \<noteq> []"
      and free: "\<exists>x\<in>set (id_readings env).
                   findOne (Order_collection s) (generateOrderId (fst x) (snd x)) = None"
      and its: "map_items (new_item_oids env) 0 cart = Inr its"
      and acc: "create_error
                  (order_document env (the (fresh_orderId (Order_collection s) (id_readings env)))
                     d its) = None"
  proof -
    from fresh_orderId_Some [OF free] obtain k where
      k: "fresh_orderId (Order_collection s) (id_readings env) = Some k"
      by blast
    with acc have "create_error (order_document env k d its) = None" by simp
    from placeOrderAction_run [where create_error = create_error, OF valid k its this]
    show ?thesis by blast
  qed
  have success:
     "order.status ord = ''Placed'' \<and>
      property (serializePlain (toObject ord)) ''status'' = VStr ''Placed'' \<and>
      property (serializePlain (toObject ord)) ''orderId'' = VStr (orderId ord) \<and>
      property (serializePlain (toObject ord)) ''restoId'' = VStr (the (orderData.restoId d)) \<and>
      findOne (Order_collection s') (orderId ord) = Some ord \<and>
      Order_collection s' = Order_collection s @ [ord] \<and>
      CustomerProfile_collection s' =
        push_order (the (orderData.customerPhone d)) (the (orderData.restoId d)) (oid ord)
          (new_Date env) (CustomerProfile_collection s) \<and>
      pubs = [ToAdmin (Str (the (orderData.restoId d))) (VStr ''order:placed'')
                (VObj [(''order'', serializePlain (toObject ord))])] \<and>
      sseConnections s' =
        snd (broadcastToAdminAction (Str (the (orderData.restoId d))) (VStr ''order:placed'')
               (VObj [(''order'', serializePlain (toObject ord))]) (Date_now env)
               (sseConnections s)) \<and>
      (\<forall>conns. distinct (map fst conns) \<and> sseConnections s = Some conns \<longrightarrow>
         (\<exists>conns'. sseConnections s' = Some conns' \<and>
            (\<forall>cid. map_of conns' cid =
               (case map_of conns cid of
                  None \<Rightarrow> None
                | Some c \<Rightarrow>
                    if restaurantId c = the (orderData.restoId d) \<and> conn_type c = Some ''admin''
                    then (if closed (controller c) then None
                          else Some (received
                            (message (VStr ''order:placed'')
                               (VObj [(''order'', serializePlain (toObject ord))]) (Date_now env)) c))
                    else Some c)))) \<and>
      (\<exists>j. stringify (serializePlain (toObject ord)) = Some j \<and>
           get_field j ''orderId'' = Some (JStr (orderId ord)) \<and>
           get_field j ''status'' = Some (JStr ''Placed'') \<and>
           message (VStr ''order:placed'') (VObj [(''order'', serializePlain (toObject ord))])
               (Date_now env) =
             DataFrame (JObj [(''event'', JStr ''order:placed''),
                              (''data'', JObj [(''order'', j)]),
                              (''timestamp'', JNum (int (Date_now env)))]))"
    if res: "placeOrderAction create_error env d s = Some (Success ord, s', pubs)"
  proof -
    from placeOrderAction_Success [OF res] obtain k cart its where
      valid: "\<not> falsy (orderData.restoId d)" "\<not> falsy (orderData.customerPhone d)"
        "\<not> falsy (orderData.tableNumber d)" "orderData.items d = Some cart" "cart \<noteq> []"
      and k: "fresh_orderId (Order_collection s) (id_readings env) = Some k"
      and its: "map_items (new_item_oids env) 0 cart = Inr its"
      and acc: "create_error (order_document env k d its) = None"
      and ord: "ord = order_document env k d its"
      by blast
    have f: "order.status ord = ''Placed''" "orderId ord = k" "oid ord = new_oid env"
      "order.restoId ord = the (orderData.restoId d)"
      by (simp_all add: ord order_document_def)
    from placeOrderAction_run [where create_error = create_error, OF valid k its acc] res
    have s': "s' = s\<lparr>Order_collection := Order_collection s @ [ord],
                   CustomerProfile_collection :=
                     push_order (the (orderData.customerPhone d)) (the (orderData.restoId d))
                       (new_oid env) (new_Date env) (CustomerProfile_collection s),
                   sseConnections :=
                     snd (broadcastToAdminAction (Str (the (orderData.restoId d)))
                            (VStr ''order:placed'')
                            (VObj [(''order'', serializePlain (toObject ord))])
                            (Date_now env) (sseConnections s))\<rparr>"
      and pubs: "pubs = [ToAdmin (Str (the (orderData.restoId d))) (VStr ''order:placed'')
                    (VObj [(''order'', serializePlain (toObject ord))])]"
      by (simp_all add: ord)
    have found: "findOne (Order_collection s @ [ord]) (orderId ord) = Some ord"
      using findOne_append_new [of "Order_collection s" ord] fresh_orderId_free [OF k] f(2)
      by simp
    have look: "\<exists>conns'. sseConnections s' = Some conns' \<and>
            (\<forall>cid. map_of conns' cid =
               (case map_of conns cid of
                  None \<Rightarrow> None
                | Some c \<Rightarrow>
                    if restaurantId c = the (orderData.restoId d) \<and> conn_type c = Some ''admin''
                    then (if closed (controller c) then None
                          else Some (received
                            (message (VStr ''order:placed'')
                               (VObj [(''order'', serializePlain (toObject ord))]) (Date_now env)) c))
                    else Some c))"
      if "distinct (map fst conns) \<and> sseConnections s = Some conns" for conns
      using admin_broadcast_lookup [of conns "the (orderData.restoId d)" "VStr ''order:placed''"
          "VObj [(''order'', serializePlain (toObject ord))]" "Date_now env"] that
      by (simp add: s')
    from serialized_order_json [of ord] obtain j where
      j: "stringify (serializePlain (toObject ord)) = Some j"
        "get_field j ''orderId'' = Some (JStr (orderId ord))"
        "get_field j ''status'' = Some (JStr (order.status ord))"
      by auto
    have wire: "\<exists>j. stringify (serializePlain (toObject ord)) = Some j \<and>
           get_field j ''orderId'' = Some (JStr (orderId ord)) \<and>
           get_field j ''status'' = Some (JStr ''Placed'') \<and>
           message (VStr ''order:placed'') (VObj [(''order'', serializePlain (toObject ord))])
               (Date_now env) =
             DataFrame (JObj [(''event'', JStr ''order:placed''),
                              (''data'', JObj [(''order'', j)]),
                              (''timestamp'', JNum (int (Date_now env)))])"
      using j f(1) by (simp add: message_def stringify_object_def member_def)
    from serialized_order_properties [of ord] f
    have props: "property (serializePlain (toObject ord)) ''status'' = VStr ''Placed''"
      "property (serializePlain (toObject ord)) ''orderId'' = VStr (orderId ord)"
      "property (serializePlain (toObject ord)) ''restoId'' = VStr (the (orderData.restoId d))"
      by simp_all
    from f(1) props found pubs look wire show ?thesis
      by (simp add: s' f(3))
  qed
  have same: "placeOrderAction create_error env (d\<lparr>orderData.status := st\<rparr>) s =
                 placeOrderAction create_error env d s"
    by (simp add: placeOrderAction_def order_document_status
        cong: option.case_cong sum.case_cong if_cong)
  from live success placeOrderAction_Failure [of create_error env d s err s' pubs] same
  show ?thesis by blast
qed

theorem place_order_placed_witness:
  "let ITS = [\<lparr> item_oid = ''65a000000000000000000020'',
                 orderItem.foodId = Some ''65b000000000000000000002'',
                 orderItem.name = Some ''Roti'', orderItem.foodType = Some ''Veg'',
                 orderItem.imageUrl = [], variant_label = Some ''Single'',
                 variant_price = Some 20, orderItem.quantity = Some 2 \<rparr>];
       ORD = order_document example_surroundings ''011234642'' example_orderData ITS;
       J = JObj [(''_id'', JStr ''65a000000000000000000002''), (''orderId'', JStr ''011234642''),
               (''restoId'', JStr ''R1''), (''restoCode'', JStr ''R1''),
               (''restoName'', JStr ''Pie''), (''customerPhone'', JStr ''9999999999''),
               (''customerName'', JStr []), (''tableNumber'', JStr ''4''),
               (''items'',
                JArr [JObj [(''foodId'', JStr ''65b000000000000000000002''), (''name'', JStr ''Roti''),
                            (''foodType'', JStr ''Veg''), (''imageUrl'', JStr []),
                            (''variant'', JObj [(''label'', JStr ''Single''),
                                                (''price'', JNum 20)]),
                            (''quantity'', JNum 2),
                            (''_id'', JStr ''65a000000000000000000020'')]]),
               (''subtotal'', JNum 40), (''tax'', JNum 0), (''discount'', JNum 0),
               (''deliveryFee'', JNum 0), (''total'', JNum 40),
               (''paymentMethod'', JStr ''Cash''), (''paymentStatus'', JStr ''Pending''),
               (''status'', JStr ''Placed''), (''createdAt'', JStr ''2023-11-14T22:13:32.346Z''),
               (''updatedAt'', JStr ''2023-11-14T22:13:32.346Z''), (''__v'', JNum 0)];
       R = the (placeOrderAction Order_create_error example_surroundings example_orderData
                  example_server)
   in \<not> falsy (orderData.restoId example_orderData) \<and>
      \<not> falsy (orderData.customerPhone example_orderData) \<and>
      \<not> falsy (orderData.tableNumber example_orderData) \<and>
      orderData.status example_orderData = Some ''Served'' \<and>
      fresh_orderId (Order_collection example_server) (id_readings example_surroundings) =
        Some ''011234642'' \<and>
      Order_create_error ORD = None \<and>
      (\<exists>k s1. placeOrderAction Order_create_error example_surroundings example_orderData
                 example_server =
               Some (Success (order_document example_surroundings k example_orderData ITS), s1,
                     [ToAdmin (Str ''R1'') (VStr ''order:placed'')
                        (VObj [(''order'',
                           serializePlain (toObject
                             (order_document example_surroundings k example_orderData ITS)))])])) \<and>
      fst R = Success ORD \<and>
      map order.status (Order_collection (fst (snd R))) = [''Served'', ''Placed''] \<and>
      map profile_orders (CustomerProfile_collection (fst (snd R))) =
        [[''65a000000000000000000001'', ''65a000000000000000000002'']] \<and>
      map (\<lambda>x. (fst x, enqueued (controller (snd x)))) (the (sseConnections (fst (snd R)))) =
        [(''admin_R1_admin_1'',
          [DataFrame (JObj [(''event'', JStr ''order:placed''), (''data'', JObj [(''order'', J)]),
                            (''timestamp'', JNum 1700000012351)])]),
         (''customer_R1_9999999999_2'', []),
         (''customer_R1_8888888888_3'', []),
         (''admin_R2_admin_4'', [])]"
proof -
  let ?cart = "[\<lparr> cartItem.foodId = None, item_id = Some ''65b000000000000000000002'',
                  cartItem.name = Some ''Roti'', cartItem.foodType = Some ''Veg'',
                  cartItem.imageUrl = None,
                  cartItem.variant = Some \<lparr> label = Some ''Single'', price = Some 20 \<rparr>,
                  cartItem.quantity = Some 2 \<rparr>]"
  let ?its = "[\<lparr> item_oid = ''65a000000000000000000020'',
                 orderItem.foodId = Some ''65b000000000000000000002'',
                 orderItem.name = Some ''Roti'', orderItem.foodType = Some ''Veg'',
                 orderItem.imageUrl = [], variant_label = Some ''Single'',
                 variant_price = Some 20, orderItem.quantity = Some 2 \<rparr>]"
  let ?ord = "order_document example_surroundings ''011234642'' example_orderData ?its"
  let ?J = "JObj [(''_id'', JStr ''65a000000000000000000002''), (''orderId'', JStr ''011234642''),
               (''restoId'', JStr ''R1''), (''restoCode'', JStr ''R1''),
               (''restoName'', JStr ''Pie''), (''customerPhone'', JStr ''9999999999''),
               (''customerName'', JStr []), (''tableNumber'', JStr ''4''),
               (''items'',
                JArr [JObj [(''foodId'', JStr ''65b000000000000000000002''), (''name'', JStr ''Roti''),
                            (''foodType'', JStr ''Veg''), (''imageUrl'', JStr []),
                            (''variant'', JObj [(''label'', JStr ''Single''),
                                                (''price'', JNum 20)]),
                            (''quantity'', JNum 2),
                            (''_id'', JStr ''65a000000000000000000020'')]]),
               (''subtotal'', JNum 40), (''tax'', JNum 0), (''discount'', JNum 0),
               (''deliveryFee'', JNum 0), (''total'', JNum 40),
               (''paymentMethod'', JStr ''Cash''), (''paymentStatus'', JStr ''Pending''),
               (''status'', JStr ''Placed''), (''createdAt'', JStr ''2023-11-14T22:13:32.346Z''),
               (''updatedAt'', JStr ''2023-11-14T22:13:32.346Z''), (''__v'', JNum 0)]"
  have 1: "\<not> falsy (orderData.restoId example_orderData)"
    and 2: "\<not> falsy (orderData.customerPhone example_orderData)"
    and 3: "\<not> falsy (orderData.tableNumber example_orderData)"
    and 4: "orderData.items example_orderData = Some ?cart"
    and st: "orderData.status example_orderData = Some ''Served''"
    and rid: "the (orderData.restoId example_orderData) = ''R1''"
    and ph: "the (orderData.customerPhone example_orderData) = ''9999999999''"
    by (simp_all add: example_orderData_def falsy_def)
  have 5: "?cart \<noteq> []" by simp
  have g1: "generateOrderId 1700000012345 7 = ''011234507''"
    and g2: "generateOrderId 1700000012346 42 = ''011234642''"
    by (simp_all add: generateOrderId_def slice_last_def padStart_def toString.simps digit_def)
  have f1: "findOne (Order_collection example_server) ''011234507'' = Some example_order"
    and f2: "findOne (Order_collection example_server) ''011234642'' = None"
    by (simp_all add: findOne_def example_server_def example_order_def)
  have rd: "id_readings example_surroundings = [(1700000012345, 7), (1700000012346, 42)]"
    by (simp add: example_surroundings_def)
  have 6: "\<exists>x\<in>set (id_readings example_surroundings).
             findOne (Order_collection example_server) (generateOrderId (fst x) (snd x)) = None"
    by (simp add: rd g2 f2)
  have fresh: "fresh_orderId (Order_collection example_server) (id_readings example_surroundings) =
                 Some ''011234642''"
    by (simp add: rd g1 g2 f1 f2)
  have 7: "map_items (new_item_oids example_surroundings) 0 ?cart = Inr ?its"
    by (simp add: map_item_def or_else_def or_string_def falsy_def example_surroundings_def
        digit_def)
  have acc: "Order_create_error ?ord = None"
    by (simp add: Order_create_error_def OrderSchema_valid_def OrderItemSchema_valid_def
        casts_to_ObjectId_def required_def order_document_def example_orderData_def
        example_surroundings_def or_string_def or_zero_def falsy_def)
  from 1 2 3 4 5 6 7 acc fresh
  have hyps: "\<not> falsy (orderData.restoId example_orderData) \<and>
      \<not> falsy (orderData.customerPhone example_orderData) \<and>
      \<not> falsy (orderData.tableNumber example_orderData) \<and>
      orderData.items example_orderData = Some ?cart \<and> ?cart \<noteq> [] \<and>
      (\<exists>x\<in>set (id_readings example_surroundings).
         findOne (Order_collection example_server) (generateOrderId (fst x) (snd x)) = None) \<and>
      map_items (new_item_oids example_surroundings) 0 ?cart = Inr ?its \<and>
      Order_create_error
        (order_document example_surroundings
           (the (fresh_orderId (Order_collection example_server)
                   (id_readings example_surroundings))) example_orderData ?its) = None"
    by simp
  from place_order_placed
         [where create_error = Order_create_error and env = example_surroundings
            and d = example_orderData and s = example_server and cart = ?cart and its = ?its,
          THEN conjunct1, rule_format, OF hyps]
  have ex: "\<exists>k s1. placeOrderAction Order_create_error example_surroundings example_orderData
                 example_server =
               Some (Success (order_document example_surroundings k example_orderData ?its), s1,
                     [ToAdmin (Str ''R1'') (VStr ''order:placed'')
                        (VObj [(''order'',
                           serializePlain (toObject
                             (order_document example_surroundings k example_orderData ?its)))])])"
    unfolding rid .
  note run = placeOrderAction_run
      [where create_error = Order_create_error, OF 1 2 3 4 5 fresh 7 acc, unfolded rid ph]
  have coll: "map order.status (Order_collection example_server) = [''Served'']"
    "order.status ?ord = ''Placed''"
    by (simp_all add: example_server_def example_order_def order_document_def)
  have prof: "map profile_orders
       (push_order ''9999999999'' ''R1'' (new_oid example_surroundings)
          (new_Date example_surroundings) (CustomerProfile_collection example_server)) =
        [[''65a000000000000000000001'', ''65a000000000000000000002'']]"
    by (simp add: example_server_def example_surroundings_def)
  have reg: "map (\<lambda>x. (fst x, enqueued (controller (snd x))))
        (the (snd (broadcastToAdminAction (Str ''R1'') (VStr ''order:placed'')
                (VObj [(''order'', serializePlain (toObject ?ord))])
                (Date_now example_surroundings) (sseConnections example_server)))) =
        [(''admin_R1_admin_1'',
          [DataFrame (JObj [(''event'', JStr ''order:placed''), (''data'', JObj [(''order'', ?J)]),
                            (''timestamp'', JNum 1700000012351)])]),
         (''customer_R1_9999999999_2'', []),
         (''customer_R1_8888888888_3'', []),
         (''admin_R2_admin_4'', [])]"
    by (simp add: example_server_def example_conns_def example_surroundings_def
        example_orderData_def order_document_def or_string_def or_zero_def falsy_def
        broadcastToAdminAction_def broadcast_def admin_sel_def strict_eq_def enqueue_def
        map_delete_def message_def stringify_object_def member_def element_def toObject_def
        toObject_item_def opt_field_def)
  show ?thesis
    unfolding Let_def using 1 2 3 st fresh acc ex
    by (simp add: run coll prof reg)
qed

section \<open>Connection ids\<close>

text \<open>
  Claim C7. The spec demands distinct ids for any two connection attempts and that an
  insertion never replaces a live entry. The id is built from the type, the restaurant, the
  phone and \<open>Date.now()\<close>: two requests with the same parameters handled in the same
  millisecond get the same id. Here an admin terminal connects and receives a broadcast; a
  second terminal of the same restaurant connects in the same millisecond, gets the same id,
  and its entry replaces the first one, which is no longer in the registry.
\<close>

theorem connection_id_collision:
  "fst (GET example_request 1700000000000 None) = EventStream ''admin_R1_admin_1700000000000'' \<and>
   map (\<lambda>x. (fst x, length (enqueued (controller (snd x)))))
     (the (snd (broadcastToAdminAction (Str ''R1'') (VStr ''order:placed'') VNull 1700000000000
                 (snd (GET example_request 1700000000000 None))))) =
     [(''admin_R1_admin_1700000000000'', 2)] \<and>
   fst (GET example_request 1700000000000
         (snd (broadcastToAdminAction (Str ''R1'') (VStr ''order:placed'') VNull 1700000000000
                 (snd (GET example_request 1700000000000 None))))) =
     EventStream ''admin_R1_admin_1700000000000'' \<and>
   map (\<lambda>x. (fst x, enqueued (controller (snd x))))
     (the (snd (GET example_request 1700000000000
         (snd (broadcastToAdminAction (Str ''R1'') (VStr ''order:placed'') VNull 1700000000000
                 (snd (GET example_request 1700000000000 None))))))) =
     [(''admin_R1_admin_1700000000000'', [connected_frame ''admin_R1_admin_1700000000000''])]"
proof -
  have id: "make_connectionId (Some ''admin'') ''R1'' None 1700000000000 =
              ''admin_R1_admin_1700000000000''"
    by (simp add: make_connectionId_def template_def or_string_def falsy_def toString.simps
        digit_def)
  show ?thesis
    by (simp add: GET_def module_init_def example_request_def falsy_def id enqueue_def Let_def
        broadcastToAdminAction_def broadcast_def admin_sel_def strict_eq_def)
qed

section \<open>Ping frames on the client\<close>

text \<open>
  Claim C8, as the spec states it, fails: the message handler has no case for \<open>ping\<close>. With
  one callback subscribed to \<open>ping\<close> and one to \<open>*\<close>, a ping frame calls both.
\<close>

theorem ping_surfaced_counterexample:
  "snd (onmessage ping_frame (subscribe ''*'' 2 (subscribe ''ping'' 1 initial_client))) =
     [(1, EventData None), (2, AllEvents (Some (JStr ''ping'')) None None)]"
  by (simp add: onmessage_def ping_frame_def subscribe_def initial_client_def
      notifySubscribers_def Let_def)

text \<open>
  Claim C8, amended. A ping frame is dispatched like every other frame: each callback
  subscribed to the event name \<open>ping\<close> is called once with the frame's missing data, then each
  callback subscribed to \<open>*\<close> is called once with the event name \<open>ping\<close> and no data or
  timestamp; no other callback is called and the client's state does not change.
\<close>

theorem ping_dispatched:
  "onmessage ping_frame c =
     (c, map (\<lambda>callback. (callback, EventData None))
           (case map_of (subscribersRef c) ''ping'' of None \<Rightarrow> [] | Some subscribers \<Rightarrow> subscribers) @
         map (\<lambda>callback. (callback, AllEvents (Some (JStr ''ping'')) None None))
           (case map_of (subscribersRef c) ''*'' of None \<Rightarrow> [] | Some subscribers \<Rightarrow> subscribers))"
  by (simp add: onmessage_def ping_frame_def notifySubscribers_def Let_def split: option.splits)

section \<open>Reconnection\<close>

lemma open_close_source:
  "h' < length ess \<Longrightarrow> es_closed (close_source h ess ! h') = (es_closed (ess ! h') \<or> h' = h)"
  by (auto simp: close_source_def nth_list_update)

lemma length_close_source [simp]: "length (close_source h ess) = length ess"
  by (simp add: close_source_def)

lemma clearTimeout_single:
  "map fst ts = [t] \<Longrightarrow> clearTimeout t ts = []"
  by (cases ts) (auto simp: clearTimeout_def)

lemma inv_initial: "client_inv initial_client"
  by (simp add: client_inv_def initial_client_def is_open_def)

lemma inv_connect: "client_inv c \<Longrightarrow> client_inv (connect ps c)"
  unfolding client_inv_def connect_def is_open_def Let_def
  by (auto simp: nth_append open_close_source split: option.splits if_splits)

lemma inv_disconnect: "client_inv c \<Longrightarrow> client_inv (disconnect c)"
  unfolding client_inv_def disconnect_def is_open_def Let_def
  by (auto simp: open_close_source clearTimeout_single split: option.splits if_splits)

lemma inv_onopen: "client_inv c \<Longrightarrow> client_inv (onopen c)"
  unfolding client_inv_def onopen_def is_open_def Let_def
  by (auto simp: clearTimeout_single split: option.splits)

lemma inv_onerror: "client_inv c \<Longrightarrow> client_inv (onerror h c)"
  unfolding client_inv_def onerror_def is_open_def Let_def
  by (auto simp: open_close_source split: option.splits)

lemma inv_onmessage: "client_inv c \<Longrightarrow> client_inv (fst (onmessage fr c))"
  unfolding client_inv_def onmessage_def is_open_def Let_def
  by (auto split: frame.splits)

lemma inv_subscribe: "client_inv c \<Longrightarrow> client_inv (subscribe n cb c)"
  unfolding client_inv_def subscribe_def is_open_def Let_def by auto

lemma inv_unsubscribe: "client_inv c \<Longrightarrow> client_inv (unsubscribe n cb c)"
  unfolding client_inv_def unsubscribe_def is_open_def by (auto split: option.splits)

lemma inv_timeout:
  assumes "client_inv c" and "t \<in> fst ` set (timeouts c)"
  shows "client_inv (reconnect (c\<lparr>timeouts := clearTimeout t (timeouts c)\<rparr>))"
proof -
  from assms have ref: "reconnectTimeoutRef c = Some t" and ts: "map fst (timeouts c) = [t]"
    by (auto simp: client_inv_def split: option.splits)
  let ?c1 = "c\<lparr>timeouts := [], reconnectTimeoutRef := None\<rparr>"
  have "client_inv ?c1"
    using assms(1) by (auto simp: client_inv_def is_open_def)
  moreover from assms(1) ref obtain ps where "connectionParamsRef c = Some ps"
    by (auto simp: client_inv_def)
  ultimately show ?thesis
    using inv_connect [of ?c1 ps] by (simp add: reconnect_def clearTimeout_single [OF ts])
qed

lemma inv_step: "client_inv c \<Longrightarrow> step e c = Some c' \<Longrightarrow> client_inv c'"
proof (cases e)
  case (Timeout t)
  assume "client_inv c" and "step e c = Some c'"
  with Timeout show ?thesis
    using inv_timeout [of c t] by (simp split: if_splits)
qed (auto simp: inv_connect inv_disconnect inv_onopen inv_onerror inv_onmessage inv_subscribe
      inv_unsubscribe split: if_splits)

lemma inv_run: "client_inv c \<Longrightarrow> run evs c = Some c' \<Longrightarrow> client_inv c'"
  by (induction evs arbitrary: c) (auto split: option.splits dest: inv_step)

text \<open>
  Claim C9. In every state the client reaches from its initial state, by any sequence of
  calls and browser events, at most one reconnect timeout is pending. A transport error
  closes the \<open>EventSource\<close>, marks the client disconnected and, when no timeout is pending,
  schedules exactly one with a delay of 5000 ms; when one is pending it schedules nothing.
  An open event leaves no timeout pending. A timeout that fires opens exactly one new
  \<open>EventSource\<close> with the stored parameters and leaves no timeout pending. The
  subscriptions are changed by \<open>subscribe\<close> and \<open>unsubscribe\<close> only, so they survive errors,
  reconnects and new \<open>EventSource\<close> objects.
\<close>

theorem reconnect_timer_discipline:
  assumes "run evs initial_client = Some c"
  shows "length (timeouts c) \<le> 1 \<and>
         (step (Error h) c = Some c' \<longrightarrow>
            \<not> is_open h c' \<and> \<not> isConnected c' \<and> subscribersRef c' = subscribersRef c \<and>
            (if timeouts c = []
             then timeouts c' = [(timer_seq c + 1, 5000)] \<and>
                  reconnectTimeoutRef c' = Some (timer_seq c + 1)
             else timeouts c' = timeouts c)) \<and>
         (step (Open h) c = Some c' \<longrightarrow>
            timeouts c' = [] \<and> reconnectTimeoutRef c' = None \<and> isConnected c' \<and>
            subscribersRef c' = subscribersRef c) \<and>
         (step (Timeout t) c = Some c' \<longrightarrow>
            timeouts c' = [] \<and> reconnectTimeoutRef c' = None \<and>
            length (eventSources c') = length (eventSources c) + 1 \<and>
            eventSourceRef c' = Some (length (eventSources c)) \<and>
            is_open (length (eventSources c)) c' \<and>
            Some (url_params (last (eventSources c'))) = connectionParamsRef c \<and>
            subscribersRef c' = subscribersRef c) \<and>
         ((\<forall>n cb. e \<noteq> Subscribe n cb \<and> e \<noteq> Unsubscribe n cb) \<and> step e c = Some c' \<longrightarrow>
            subscribersRef c' = subscribersRef c)"
proof -
  from inv_run [OF inv_initial assms] have inv: "client_inv c" .
  then have one: "length (timeouts c) \<le> 1"
    by (auto simp: client_inv_def dest: arg_cong [where f = length] split: option.splits)
  have err: "\<not> is_open h c' \<and> \<not> isConnected c' \<and> subscribersRef c' = subscribersRef c \<and>
            (if timeouts c = []
             then timeouts c' = [(timer_seq c + 1, 5000)] \<and>
                  reconnectTimeoutRef c' = Some (timer_seq c + 1)
             else timeouts c' = timeouts c)"
    if "step (Error h) c = Some c'"
  proof -
    from that have op: "is_open h c" and c': "c' = onerror h c"
      by (auto split: if_splits)
    from inv op have ps: "connectionParamsRef c \<noteq> None"
      by (auto simp: client_inv_def)
    from inv have ref: "(reconnectTimeoutRef c = None) = (timeouts c = [])"
      by (auto simp: client_inv_def split: option.splits)
    from op ps ref show ?thesis
      unfolding c' onerror_def is_open_def Let_def
      by (auto simp: open_close_source)
  qed
  have opn: "timeouts c' = [] \<and> reconnectTimeoutRef c' = None \<and> isConnected c' \<and>
            subscribersRef c' = subscribersRef c"
    if "step (Open h) c = Some c'"
  proof -
    from that have c': "c' = onopen c" by (auto split: if_splits)
    from inv show ?thesis
      unfolding c' onopen_def Let_def
      by (auto simp: client_inv_def clearTimeout_single split: option.splits)
  qed
  have tmo: "timeouts c' = [] \<and> reconnectTimeoutRef c' = None \<and>
            length (eventSources c') = length (eventSources c) + 1 \<and>
            eventSourceRef c' = Some (length (eventSources c)) \<and>
            is_open (length (eventSources c)) c' \<and>
            Some (url_params (last (eventSources c'))) = connectionParamsRef c \<and>
            subscribersRef c' = subscribersRef c"
    if "step (Timeout t) c = Some c'"
  proof -
    from that have pending: "t \<in> fst ` set (timeouts c)"
      and c': "c' = reconnect (c\<lparr>timeouts := clearTimeout t (timeouts c)\<rparr>)"
      by (auto split: if_splits)
    from inv pending have ts: "map fst (timeouts c) = [t]" and "reconnectTimeoutRef c = Some t"
      by (auto simp: client_inv_def split: option.splits)
    with inv obtain ps where ps: "connectionParamsRef c = Some ps"
      and ok: "\<not> falsy (param_restaurantId ps)" "\<not> falsy (param_type ps)"
      by (auto simp: client_inv_def)
    show ?thesis
      unfolding c' reconnect_def connect_def is_open_def Let_def
      using ps ok by (auto simp: clearTimeout_single [OF ts] nth_append split: option.splits)
  qed
  have subs: "subscribersRef c' = subscribersRef c"
    if "\<forall>n cb. e \<noteq> Subscribe n cb \<and> e \<noteq> Unsubscribe n cb" and "step e c = Some c'"
    using that
    by (cases e)
      (auto simp: connect_def disconnect_def onopen_def onmessage_def onerror_def reconnect_def
        Let_def split: if_splits option.splits frame.splits)
  from one err opn tmo subs show ?thesis by blast
qed

theorem reconnect_timer_discipline_witness:
  "run [Subscribe ''order:status_changed'' 1, Connect example_params, Open 0] initial_client =
     Some \<lparr> isConnected = True, connectionId = None, eventSourceRef = Some 0,
            subscribersRef = [(''order:status_changed'', [1])], reconnectTimeoutRef = None,
            connectionParamsRef = Some example_params,
            eventSources = [\<lparr> url_params = example_params, es_closed = False \<rparr>],
            timeouts = [], timer_seq = 0 \<rparr> \<and>
   step (Error 0)
     \<lparr> isConnected = True, connectionId = None, eventSourceRef = Some 0,
       subscribersRef = [(''order:status_changed'', [1])], reconnectTimeoutRef = None,
       connectionParamsRef = Some example_params,
       eventSources = [\<lparr> url_params = example_params, es_closed = False \<rparr>],
       timeouts = [], timer_seq = 0 \<rparr> =
     Some \<lparr> isConnected = False, connectionId = None, eventSourceRef = Some 0,
            subscribersRef = [(''order:status_changed'', [1])], reconnectTimeoutRef = Some 1,
            connectionParamsRef = Some example_params,
            eventSources = [\<lparr> url_params = example_params, es_closed = True \<rparr>],
            timeouts = [(1, 5000)], timer_seq = 1 \<rparr>"
proof -
  let ?c = "\<lparr> isConnected = True, connectionId = None, eventSourceRef = Some 0,
       subscribersRef = [(''order:status_changed'', [1])], reconnectTimeoutRef = None,
       connectionParamsRef = Some example_params,
       eventSources = [\<lparr> url_params = example_params, es_closed = False \<rparr>],
       timeouts = [], timer_seq = 0 \<rparr>"
  let ?c' = "\<lparr> isConnected = False, connectionId = None, eventSourceRef = Some 0,
            subscribersRef = [(''order:status_changed'', [1])], reconnectTimeoutRef = Some 1,
            connectionParamsRef = Some example_params,
            eventSources = [\<lparr> url_params = example_params, es_closed = True \<rparr>],
            timeouts = [(1, 5000)], timer_seq = 1 \<rparr>"
  have r: "run [Subscribe ''order:status_changed'' 1, Connect example_params, Open 0] initial_client =
             Some ?c"
    by (simp add: initial_client_def subscribe_def connect_def onopen_def is_open_def
        example_params_def falsy_def Let_def)
  have s: "step (Error 0) ?c = Some ?c'"
    by (simp add: onerror_def is_open_def close_source_def Let_def)
  from reconnect_timer_discipline [OF r, of 0 ?c'] r s show ?thesis by simp
qed

end
